theory Spec2Isabelle
  imports Main "HOL-Library.Finite_Map" "HOL-Library.Char_ord" "HOL-Library.List_Lexorder"
    "HOL-Library.Multiset"
begin

section \<open>The presubmit query command: data model\<close>

text \<open>
  The development embeds the \<open>query\<close> subcommand of the presubmit tool (package
  \<open>main\<close>, the file that declares \<open>runQuery\<close>, \<open>clsSender\<close>, \<open>isBuildOutdated\<close> and
  \<open>checkEmailAddress\<close>): it queries Gerrit for the open changes, compares them with the
  changes of the previous run, and sends the new groups of changes to a Jenkins job,
  after cancelling the builds they make outdated.

  Go's \<open>int\<close> is modelled by \<open>int\<close>: the code only stores and compares change numbers,
  patchsets and build numbers, and counts the changes it sent, so no wrap-around is
  involved. A Go \<open>string\<close> is a byte string, modelled by \<open>string\<close>. A Go \<open>error\<close> value
  is an \<open>error\<close>; \<open>nil\<close> is \<open>None\<close> of \<open>error option\<close>, and a pair \<open>(v, err)\<close> is a sum
  \<open>error + 'a\<close> with \<open>Inl\<close> the error.
\<close>

text \<open>\<open>type clNumberToPatchsetMap map[int]int\<close>: a finite map.\<close>

type_synonym clNumberToPatchsetMap = "(int, int) fmap"

text \<open>
  The fields of \<open>gerrit.Change\<close> the command reads: \<open>Project\<close>, \<open>PresubmitTest\<close>, and the
  results of the accessors \<open>Reference()\<close> and \<open>OwnerEmail()\<close>.
\<close>

datatype PresubmitTestType = PresubmitTestTypeNone | PresubmitTestTypeAll

record Change =
  Project :: string
  Reference :: string
  OwnerEmail :: string
  PresubmitTest :: PresubmitTestType

type_synonym CLList = "Change list"

text \<open>
  An \<open>error\<close> is a message, or a \<open>*gerrit.ChangeError\<close> carrying the change it is about
  and the underlying error.
\<close>

datatype error = Error string | ChangeError Change error

section \<open>Library functions\<close>

text \<open>\<open>strings.Split(s, sep)\<close> for a separator of one byte: \<open>n\<close> occurrences of the
  separator give \<open>n + 1\<close> pieces, so the empty string gives one empty piece.\<close>

fun Split :: "string \<Rightarrow> char \<Rightarrow> string list" where
  "Split [] c = [[]]"
| "Split (x # xs) c =
     (if x = c then [] # Split xs c
      else (case Split xs c of [] \<Rightarrow> [[x]] | p # ps \<Rightarrow> (x # p) # ps))"

text \<open>\<open>strings.Join(elems, sep)\<close>.\<close>

fun Join :: "string list \<Rightarrow> string \<Rightarrow> string" where
  "Join [] sep = []"
| "Join [x] sep = x"
| "Join (x # y # ys) sep = x @ sep @ Join (y # ys) sep"

text \<open>\<open>strings.HasSuffix(s, suffix)\<close>.\<close>

definition HasSuffix :: "string \<Rightarrow> string \<Rightarrow> bool" where
  "HasSuffix s suffix =
     (length suffix \<le> length s \<and> drop (length s - length suffix) s = suffix)"

text \<open>\<open>strings.ToLower\<close> on ASCII text: the letters \<open>A\<close> to \<open>Z\<close> are mapped to \<open>a\<close> to
  \<open>z\<close>, every other byte is kept. (Go also maps letters outside ASCII; the model covers
  ASCII e-mail addresses.)\<close>

definition toLowerChar :: "char \<Rightarrow> char" where
  "toLowerChar c =
     (if CHR ''A'' \<le> c \<and> c \<le> CHR ''Z'' then char_of (of_char c + (32::nat)) else c)"

definition ToLower :: "string \<Rightarrow> string" where
  "ToLower s = map toLowerChar s"

section \<open>Reference strings\<close>

text \<open>Decimal digits, for the two numbers of a reference string: a non-empty string of
  digits is a number, anything else an error.\<close>

definition digitVal :: "char \<Rightarrow> nat option" where
  "digitVal c =
     (if CHR ''0'' \<le> c \<and> c \<le> CHR ''9'' then Some (of_char c - 48) else None)"

fun parseDigits :: "string \<Rightarrow> nat \<Rightarrow> nat option" where
  "parseDigits [] acc = Some acc"
| "parseDigits (c # cs) acc =
     (case digitVal c of None \<Rightarrow> None | Some d \<Rightarrow> parseDigits cs (10 * acc + d))"

definition Atoi :: "string \<Rightarrow> error + int" where
  "Atoi s =
     (if s = [] then Inl (Error ''Atoi: invalid syntax'')
      else (case parseDigits s 0 of
              None \<Rightarrow> Inl (Error ''Atoi: invalid syntax'')
            | Some n \<Rightarrow> Inr (int n)))"

text \<open>
  Modelled from the spec: \<open>gerrit.ParseRefString\<close> (package \<open>v.io/jiri/gerrit\<close>) is not
  among the sources. The spec gives the shape of a reference string,
  \<open>refs/changes/NN/NNNN/P\<close>, with \<open>NNNN\<close> the change number and \<open>P\<close> the patchset, and
  says that a string that cannot be decomposed into a (change, patchset) pair is an
  error. The functions of the command take the parser as a parameter, and their
  theorems hold for every parser; this one is used where a concrete parser is needed.
\<close>

definition ParseRefString :: "string \<Rightarrow> error + int \<times> int" where
  "ParseRefString ref =
     (let parts = Split ref CHR ''/'' in
      if length parts \<noteq> 5 then Inl (Error ''unexpected number of parts'')
      else (case Atoi (parts ! 3) of
              Inl e \<Rightarrow> Inl e
            | Inr cl \<Rightarrow>
                (case Atoi (parts ! 4) of
                   Inl e \<Rightarrow> Inl e
                 | Inr patchset \<Rightarrow> Inr (cl, patchset))))"

section \<open>The outdated-build check\<close>

text \<open>\<open>sortedKeys\<close>: the keys of the map, in increasing order.\<close>

definition sortedKeys :: "clNumberToPatchsetMap \<Rightarrow> int list" where
  "sortedKeys cls = sorted_list_of_fset (fmdom cls)"

text \<open>\<open>m[k]\<close> on a Go map: the zero value when the key is absent.\<close>

definition index :: "clNumberToPatchsetMap \<Rightarrow> int \<Rightarrow> int" where
  "index m k = (case fmlookup m k of None \<Rightarrow> 0 | Some v \<Rightarrow> v)"

text \<open>The first loop of \<open>isBuildOutdated\<close>: every ref is parsed and stored in \<open>curCLs\<close>;
  the first parse error is returned.\<close>

fun parseRefs ::
  "(string \<Rightarrow> error + int \<times> int) \<Rightarrow> string list \<Rightarrow> clNumberToPatchsetMap
     \<Rightarrow> error + clNumberToPatchsetMap" where
  "parseRefs prs [] curCLs = Inr curCLs"
| "parseRefs prs (ref # refs) curCLs =
     (case prs ref of
        Inl err \<Rightarrow> Inl err
      | Inr (cl, patchset) \<Rightarrow> parseRefs prs refs (fmupd cl patchset curCLs))"

text \<open>The loop taken when the two key sets differ: \<open>true\<close> at the first key of \<open>curCLs\<close>
  that \<open>newCLs\<close> has with a patchset at least as large. Go ranges over the map in an
  unspecified order; the model visits the keys in the order given.\<close>

fun overlapOutdated ::
  "clNumberToPatchsetMap \<Rightarrow> clNumberToPatchsetMap \<Rightarrow> int list \<Rightarrow> bool" where
  "overlapOutdated curCLs newCLs [] = False"
| "overlapOutdated curCLs newCLs (curCLNumber # rest) =
     (case fmlookup newCLs curCLNumber of
        Some newPatchset \<Rightarrow>
          if newPatchset \<ge> index curCLs curCLNumber then True
          else overlapOutdated curCLs newCLs rest
      | None \<Rightarrow> overlapOutdated curCLs newCLs rest)"

text \<open>The loop taken when the key sets agree: \<open>outdated\<close> starts as \<open>true\<close> and the loop
  breaks with \<open>false\<close> at the first change whose new patchset is smaller.\<close>

fun checkPatchsets ::
  "clNumberToPatchsetMap \<Rightarrow> clNumberToPatchsetMap \<Rightarrow> int list \<Rightarrow> bool" where
  "checkPatchsets curCLs newCLs [] = True"
| "checkPatchsets curCLs newCLs (clNumber # rest) =
     (if index newCLs clNumber < index curCLs clNumber then False
      else checkPatchsets curCLs newCLs rest)"

definition isBuildOutdated ::
  "(string \<Rightarrow> error + int \<times> int) \<Rightarrow> string \<Rightarrow> clNumberToPatchsetMap \<Rightarrow> error + bool" where
  "isBuildOutdated prs curRefs newCLs =
     (case parseRefs prs (Split curRefs CHR '':'') fmempty of
        Inl err \<Rightarrow> Inl err
      | Inr curCLs \<Rightarrow>
          (let newCLNumbers = sortedKeys newCLs in
           if sortedKeys curCLs \<noteq> newCLNumbers
           then Inr (overlapOutdated curCLs newCLs (sortedKeys curCLs))
           else Inr (checkPatchsets curCLs newCLs newCLNumbers)))"

section \<open>The world outside the command\<close>

text \<open>
  The command talks to Jenkins, to Gerrit and to the file system through packages that
  are not part of it. A run is modelled by explicit state passing: the state is the list
  of events so far, in the order they happened, and every call that leaves the process
  appends one event that records its arguments and its answer. The answers are given
  by a \<open>world\<close>: one function per external call, which may look at the events so far (so
  that, for instance, the build queue can change after a cancellation).
\<close>

datatype stream = Stdout | Stderr

text \<open>The arguments of a format string: \<open>%s\<close> or \<open>%q\<close> (a string), \<open>%d\<close> (an int), \<open>%v\<close>
  (an error).\<close>

datatype fmtarg = ArgStr string | ArgInt int | ArgErr error

text \<open>What the command reads of a \<open>jenkins.QueuedBuild\<close> (\<open>Id\<close>, \<open>ParseRefs()\<close>) and of
  a \<open>jenkins.BuildInfo\<close> (\<open>Building\<close>, \<open>Number\<close>, \<open>ParseRefs()\<close>).\<close>

record QueuedBuild =
  Id_QueuedBuild :: int
  ParseRefs_QueuedBuild :: string

record BuildInfo =
  Building :: bool
  Number :: int
  ParseRefs_BuildInfo :: string

text \<open>\<open>url.Values\<close>, a \<open>map[string][]string\<close>.\<close>

type_synonym Values = "(string, string list) fmap"

datatype event =
    Printf stream string "fmtarg list"
  | Fprintf stream string "fmtarg list"
  | E_LastCompletedBuildStatus string "error + string"
  | E_ReadLog string "error + clNumberToPatchsetMap"
  | E_Query string string "error + CLList"
  | E_WriteLog string CLList "error option"
  | E_postMessage string "string list" bool "error option"
  | E_LoadManifest "error option"
  | E_LoadConfig "error option"
  | E_QueuedBuilds string "error + QueuedBuild list"
  | E_OngoingBuilds string "error + BuildInfo list"
  | E_CancelQueuedBuild string "error option"
  | E_CancelOngoingBuild string int "error option"
  | E_AddBuildWithParameter string Values "error option"
  | E_getSubmittableCLs CLList "CLList list"
  | E_submitCLs CLList "error option"

type_synonym trace = "event list"

text \<open>What the command uses of a \<open>tooldata.Config\<close>: \<open>ProjectTests\<close>, and \<open>TestParts\<close>, which
  is \<open>nil\<close> (\<open>None\<close>) for a test without parts.\<close>

record Config =
  ProjectTests :: "string list \<Rightarrow> string list"
  TestParts :: "string \<Rightarrow> string list option"

text \<open>\<open>project.Projects\<close> is represented by the names of its projects; a \<open>nil\<close> map is
  \<open>None\<close>. \<open>Find\<close> returns the projects of the given name.\<close>

type_synonym Projects = "string list"

definition Find :: "Projects \<Rightarrow> string \<Rightarrow> Projects" where
  "Find projects name = filter (\<lambda>p. p = name) projects"

text \<open>
  The world: the flags of the command, the library functions it calls
  (\<open>fmt.Sprintf\<close>, \<open>gerrit.ParseRefString\<close>, \<open>gerrit.NewOpenCLs\<close>), the helpers of the package
  that are not among the sources (\<open>gerritBaseUrl\<close>, \<open>genStartPresubmitBuildLink\<close>,
  \<open>postMessage\<close>, \<open>getSubmittableCLs\<close>, \<open>submitCLs\<close>) and the external systems.
  \<open>ext_Jenkins\<close> is \<open>jirix.Jenkins(host)\<close>, which builds a client or fails.
\<close>

record world =
  jenkinsHostFlag :: string
  presubmitTestJobFlag :: string
  queryStringFlag :: string
  logFilePathFlag :: string
  Sprintf :: "string \<Rightarrow> fmtarg list \<Rightarrow> string"
  ext_ParseRefString :: "string \<Rightarrow> error + int \<times> int"
  NewOpenCLs :: "clNumberToPatchsetMap \<Rightarrow> CLList \<Rightarrow> CLList list \<times> error list"
  gerritBaseUrl :: "error + string"
  genStartPresubmitBuildLink :: "string \<Rightarrow> string \<Rightarrow> string \<Rightarrow> string"
  ext_Jenkins :: "string \<Rightarrow> error option"
  ext_LastCompletedBuildStatus :: "trace \<Rightarrow> string \<Rightarrow> error + string"
  ext_ReadLog :: "trace \<Rightarrow> string \<Rightarrow> error + clNumberToPatchsetMap"
  ext_Query :: "trace \<Rightarrow> string \<Rightarrow> string \<Rightarrow> error + CLList"
  ext_WriteLog :: "trace \<Rightarrow> string \<Rightarrow> CLList \<Rightarrow> error option"
  ext_postMessage :: "trace \<Rightarrow> string \<Rightarrow> string list \<Rightarrow> bool \<Rightarrow> error option"
  ext_LoadManifest :: "trace \<Rightarrow> error + Projects option"
  ext_LoadConfig :: "trace \<Rightarrow> error + Config"
  ext_QueuedBuilds :: "trace \<Rightarrow> string \<Rightarrow> error + QueuedBuild list"
  ext_OngoingBuilds :: "trace \<Rightarrow> string \<Rightarrow> error + BuildInfo list"
  ext_CancelQueuedBuild :: "trace \<Rightarrow> string \<Rightarrow> error option"
  ext_CancelOngoingBuild :: "trace \<Rightarrow> string \<Rightarrow> int \<Rightarrow> error option"
  ext_AddBuildWithParameter :: "trace \<Rightarrow> string \<Rightarrow> Values \<Rightarrow> error option"
  ext_getSubmittableCLs :: "trace \<Rightarrow> CLList \<Rightarrow> CLList list"
  ext_submitCLs :: "trace \<Rightarrow> CLList \<Rightarrow> error option"

text \<open>An external call: ask the world, given the events so far, and record the answer.\<close>

definition call :: "(trace \<Rightarrow> 'r) \<Rightarrow> ('r \<Rightarrow> event) \<Rightarrow> trace \<Rightarrow> 'r \<times> trace" where
  "call answer ev tr = (let r = answer tr in (r, tr @ [ev r]))"

definition failure :: "error + 'a \<Rightarrow> error option" where
  "failure r = (case r of Inl err \<Rightarrow> Some err | Inr v \<Rightarrow> None)"

definition LastCompletedBuildStatus :: "world \<Rightarrow> string \<Rightarrow> trace \<Rightarrow> (error + string) \<times> trace" where
  "LastCompletedBuildStatus w job =
     call (\<lambda>tr. ext_LastCompletedBuildStatus w tr job) (E_LastCompletedBuildStatus job)"

definition ReadLog :: "world \<Rightarrow> string \<Rightarrow> trace \<Rightarrow> (error + clNumberToPatchsetMap) \<times> trace" where
  "ReadLog w path = call (\<lambda>tr. ext_ReadLog w tr path) (E_ReadLog path)"

definition Query :: "world \<Rightarrow> string \<Rightarrow> string \<Rightarrow> trace \<Rightarrow> (error + CLList) \<times> trace" where
  "Query w gUrl q = call (\<lambda>tr. ext_Query w tr gUrl q) (E_Query gUrl q)"

definition WriteLog :: "world \<Rightarrow> string \<Rightarrow> CLList \<Rightarrow> trace \<Rightarrow> error option \<times> trace" where
  "WriteLog w path cls = call (\<lambda>tr. ext_WriteLog w tr path cls) (E_WriteLog path cls)"

definition postMessage ::
  "world \<Rightarrow> string \<Rightarrow> string list \<Rightarrow> bool \<Rightarrow> trace \<Rightarrow> error option \<times> trace" where
  "postMessage w message refs success =
     call (\<lambda>tr. ext_postMessage w tr message refs success) (E_postMessage message refs success)"

definition LoadManifest :: "world \<Rightarrow> trace \<Rightarrow> (error + Projects option) \<times> trace" where
  "LoadManifest w = call (ext_LoadManifest w) (\<lambda>r. E_LoadManifest (failure r))"

definition LoadConfig :: "world \<Rightarrow> trace \<Rightarrow> (error + Config) \<times> trace" where
  "LoadConfig w = call (ext_LoadConfig w) (\<lambda>r. E_LoadConfig (failure r))"

definition QueuedBuilds :: "world \<Rightarrow> string \<Rightarrow> trace \<Rightarrow> (error + QueuedBuild list) \<times> trace" where
  "QueuedBuilds w job = call (\<lambda>tr. ext_QueuedBuilds w tr job) (E_QueuedBuilds job)"

definition OngoingBuilds :: "world \<Rightarrow> string \<Rightarrow> trace \<Rightarrow> (error + BuildInfo list) \<times> trace" where
  "OngoingBuilds w job = call (\<lambda>tr. ext_OngoingBuilds w tr job) (E_OngoingBuilds job)"

definition CancelQueuedBuild :: "world \<Rightarrow> string \<Rightarrow> trace \<Rightarrow> error option \<times> trace" where
  "CancelQueuedBuild w buildId =
     call (\<lambda>tr. ext_CancelQueuedBuild w tr buildId) (E_CancelQueuedBuild buildId)"

definition CancelOngoingBuild :: "world \<Rightarrow> string \<Rightarrow> int \<Rightarrow> trace \<Rightarrow> error option \<times> trace" where
  "CancelOngoingBuild w job number =
     call (\<lambda>tr. ext_CancelOngoingBuild w tr job number) (E_CancelOngoingBuild job number)"

definition AddBuildWithParameter ::
  "world \<Rightarrow> string \<Rightarrow> Values \<Rightarrow> trace \<Rightarrow> error option \<times> trace" where
  "AddBuildWithParameter w job params =
     call (\<lambda>tr. ext_AddBuildWithParameter w tr job params) (E_AddBuildWithParameter job params)"

definition getSubmittableCLs :: "world \<Rightarrow> CLList \<Rightarrow> trace \<Rightarrow> CLList list \<times> trace" where
  "getSubmittableCLs w cls = call (\<lambda>tr. ext_getSubmittableCLs w tr cls) (E_getSubmittableCLs cls)"

definition submitCLs :: "world \<Rightarrow> CLList \<Rightarrow> trace \<Rightarrow> error option \<times> trace" where
  "submitCLs w cls = call (\<lambda>tr. ext_submitCLs w tr cls) (E_submitCLs cls)"

text \<open>\<open>printf(out, format, args...)\<close>, the logging helper of the package, and
  \<open>fmt.Fprintf\<close>: one event each.\<close>

definition printf :: "stream \<Rightarrow> string \<Rightarrow> fmtarg list \<Rightarrow> trace \<Rightarrow> trace" where
  "printf out format args tr = tr @ [Printf out format args]"

definition fprintf :: "stream \<Rightarrow> string \<Rightarrow> fmtarg list \<Rightarrow> trace \<Rightarrow> trace" where
  "fprintf out format args tr = tr @ [Fprintf out format args]"

section \<open>Sending change lists to the presubmit test\<close>

definition emailWhitelist :: "string list" where
  "emailWhitelist = [''aaron@azinman.com'', ''aaron@empiric.al'']"

text \<open>The loop of \<open>checkEmailAddress\<close> over the whitelist, with its \<open>break\<close>.\<close>

fun whiteListedLoop :: "string list \<Rightarrow> string \<Rightarrow> bool" where
  "whiteListedLoop [] email = False"
| "whiteListedLoop (we # rest) email =
     (if we = ToLower email then True else whiteListedLoop rest email)"

definition checkEmailAddress :: "string \<Rightarrow> bool" where
  "checkEmailAddress email =
     (let fromGoogle = HasSuffix email ''@google.com'';
          whiteListed = whiteListedLoop emailWhitelist email
      in fromGoogle \<or> whiteListed)"

text \<open>
  \<open>clsSender\<close>. Its three function fields take \<open>jirix\<close>, here the trace, and return their
  result with the new trace. \<open>removeOutdatedFn\<close> returns a \<open>[]error\<close>, whose entries the
  caller tests against \<open>nil\<close>.
\<close>

record clsSender =
  clLists :: "CLList list"
  projects :: "Projects option"
  clsSent :: int
  removeOutdatedFn :: "clNumberToPatchsetMap \<Rightarrow> trace \<Rightarrow> error option list \<times> trace"
  addPresubmitFn :: "CLList \<Rightarrow> string list \<Rightarrow> trace \<Rightarrow> error option \<times> trace"
  postMessageFn :: "string \<Rightarrow> string list \<Rightarrow> bool \<Rightarrow> trace \<Rightarrow> error option \<times> trace"

record processCLListResult =
  clMap :: clNumberToPatchsetMap
  clString :: string
  skipPresubmitTest :: bool
  hasNonGoogleOwner :: bool
  projects_result :: "string list"
  refs :: "string list"
  filteredCLList :: CLList

text \<open>The local variables of \<open>processCLList\<close>.\<close>

record processCLListVars =
  v_curCLMap :: clNumberToPatchsetMap
  v_clStrings :: "string list"
  v_skipPresubmitTest :: bool
  v_hasNonGoogleOwner :: bool
  v_projects :: "string list"
  v_refs :: "string list"
  v_filteredCLList :: CLList

definition isKnownProject :: "Change \<Rightarrow> Projects \<Rightarrow> trace \<Rightarrow> bool \<times> trace" where
  "isKnownProject cl ps tr =
     (let foundProjects = Find ps (Project cl) in
      if length foundProjects = 0
      then (False, printf Stdout ''project=%q (%s) not found. Skipped.\<newline>''
                     [ArgStr (Project cl), ArgStr (Reference cl)] tr)
      else (True, tr))"

text \<open>
  The loop of \<open>processCLList\<close>. A change outside the known projects is skipped
  (\<open>s.projects != nil && !isKnownProject(...)\<close>: no lookup when \<open>s.projects\<close> is \<open>nil\<close>). When
  a reference does not parse, the error is printed and \<open>processCLList\<close> returns \<open>nil\<close>: the
  loop answers \<open>None\<close>.
\<close>

fun processCLListLoop ::
  "world \<Rightarrow> clsSender \<Rightarrow> CLList \<Rightarrow> processCLListVars \<Rightarrow> trace
     \<Rightarrow> processCLListVars option \<times> trace" where
  "processCLListLoop w s [] v tr = (Some v, tr)"
| "processCLListLoop w s (curCL # rest) v tr =
     (case (case projects s of
              None \<Rightarrow> (True, tr)
            | Some ps \<Rightarrow> isKnownProject curCL ps tr) of
        (False, tr1) \<Rightarrow> processCLListLoop w s rest v tr1
      | (True, tr1) \<Rightarrow>
          (let v1 = v\<lparr>v_filteredCLList := v_filteredCLList v @ [curCL]\<rparr> in
           case ext_ParseRefString w (Reference curCL) of
             Inl err \<Rightarrow> (None, printf Stderr ''%v\<newline>'' [ArgErr err] tr1)
           | Inr (cl, patchset) \<Rightarrow>
               (let v2 = v1\<lparr>v_curCLMap := fmupd cl patchset (v_curCLMap v1),
                           v_clStrings := v_clStrings v1 @
                             [Sprintf w ''http://go/vcl/%d/%d'' [ArgInt cl, ArgInt patchset]]\<rparr>;
                    v3 = (if PresubmitTest curCL = PresubmitTestTypeNone
                          then v2\<lparr>v_skipPresubmitTest := True\<rparr> else v2);
                    v4 = v3\<lparr>v_hasNonGoogleOwner := \<not> checkEmailAddress (OwnerEmail curCL)\<rparr>;
                    v5 = v4\<lparr>v_projects := v_projects v4 @ [Project curCL],
                           v_refs := v_refs v4 @ [Reference curCL]\<rparr>
                in processCLListLoop w s rest v5 tr1)))"

definition processCLList ::
  "world \<Rightarrow> clsSender \<Rightarrow> CLList \<Rightarrow> trace \<Rightarrow> processCLListResult option \<times> trace" where
  "processCLList w s curCLList tr =
     (case processCLListLoop w s curCLList
             \<lparr>v_curCLMap = fmempty, v_clStrings = [], v_skipPresubmitTest = False,
              v_hasNonGoogleOwner = False, v_projects = [], v_refs = [],
              v_filteredCLList = []\<rparr> tr of
        (None, tr1) \<Rightarrow> (None, tr1)
      | (Some v, tr1) \<Rightarrow>
          (Some \<lparr>clMap = v_curCLMap v,
                 clString = Join (v_clStrings v) '', '',
                 skipPresubmitTest = v_skipPresubmitTest v,
                 hasNonGoogleOwner = v_hasNonGoogleOwner v,
                 projects_result = v_projects v,
                 refs = v_refs v,
                 filteredCLList = v_filteredCLList v\<rparr>, tr1))"

text \<open>The decimal digits of a number, as \<open>%d\<close> prints them.\<close>

fun decimal :: "nat \<Rightarrow> string" where
  "decimal n =
     (if n < 10 then [char_of (48 + n)]
      else decimal (n div 10) @ [char_of (48 + n mod 10)])"

declare decimal.simps [simp del]

text \<open>
  Modelled from the spec: \<open>testNameWithPartSuffix\<close> is a helper of the package that is not
  among the sources. The spec says that a test with parts is expanded into
  \<open><test>-part<i>\<close>.
\<close>

definition testNameWithPartSuffix :: "string \<Rightarrow> nat \<Rightarrow> string" where
  "testNameWithPartSuffix test i = test @ ''-part'' @ decimal i"

text \<open>The loop of \<open>getTestsToRun\<close>; the inner loop runs \<open>i\<close> from \<open>0\<close> to \<open>len(parts)\<close>
  inclusive.\<close>

fun appendTests :: "Config \<Rightarrow> string list \<Rightarrow> string list \<Rightarrow> string list" where
  "appendTests config [] tests = tests"
| "appendTests config (test # rest) tests =
     (case TestParts config test of
        Some parts \<Rightarrow>
          appendTests config rest
            (tests @ map (\<lambda>i. testNameWithPartSuffix test i) [0 ..< length parts + 1])
      | None \<Rightarrow> appendTests config rest (tests @ [test]))"

text \<open>\<open>sort.Strings\<close> orders byte strings lexicographically: \<open>sort\<close> on \<open>string\<close>.\<close>

definition getTestsToRun ::
  "world \<Rightarrow> string list \<Rightarrow> trace \<Rightarrow> (error + string list) \<times> trace" where
  "getTestsToRun w ps tr =
     (case LoadConfig w tr of
        (Inl err, tr1) \<Rightarrow> (Inl err, tr1)
      | (Inr config, tr1) \<Rightarrow>
          (let tmpTests = ProjectTests config ps;
               tests = appendTests config tmpTests []
           in (Inr (sort tests), tr1)))"

definition handleNonGoogleOwner ::
  "world \<Rightarrow> clsSender \<Rightarrow> string list \<Rightarrow> string list \<Rightarrow> string list \<Rightarrow> trace
     \<Rightarrow> error option \<times> trace" where
  "handleNonGoogleOwner w s rs ps tests tr =
     (let link = genStartPresubmitBuildLink w (Join rs '':'') (Join ps '':'') (Join tests '' '');
          message = Sprintf w
            ''A Vanadium team member will manually trigger presubmit tests for this change:\<newline>%s\<newline>''
            [ArgStr link]
      in postMessageFn s message rs False tr)"

text \<open>
  How a function ends: it returns its error result, or it panics. The only panic of the
  command is the dereference of the \<open>nil\<close> that \<open>processCLList\<close> may return.
\<close>

datatype outcome = Return "error option" | Panic

text \<open>The \<open>nil\<close> entries of a \<open>[]error\<close> are skipped, the others printed to stderr.\<close>

fun printErrors :: "error option list \<Rightarrow> trace \<Rightarrow> trace" where
  "printErrors [] tr = tr"
| "printErrors (None # errs) tr = printErrors errs tr"
| "printErrors (Some err # errs) tr =
     printErrors errs (printf Stderr ''%v\<newline>'' [ArgErr err] tr)"

text \<open>
  One iteration of the loop of \<open>sendCLListsToPresubmitTest\<close>, on the group \<open>curCLList\<close>,
  with \<open>s.clsSent\<close> passed and returned. \<open>None\<close> means that the loop goes on with the next
  group (\<open>continue\<close>, or the end of the body); \<open>Some\<close> ends the function.
\<close>

definition sendCLList ::
  "world \<Rightarrow> clsSender \<Rightarrow> CLList \<Rightarrow> int \<Rightarrow> trace \<Rightarrow> outcome option \<times> int \<times> trace" where
  "sendCLList w s curCLList0 sent tr =
     (case processCLList w s curCLList0 tr of
        (None, tr1) \<Rightarrow> (Some Panic, sent, tr1)
      | (Some clListInfo, tr1) \<Rightarrow>
          (let curCLList = filteredCLList clListInfo in
           if length curCLList = 0
           then (None, sent, printf Stdout ''SKIP: Empty CL set\<newline>'' [] tr1)
           else if skipPresubmitTest clListInfo
           then (case postMessageFn s ''Presubmit tests skipped.\<newline>'' (refs clListInfo) True tr1 of
                   (Some err, tr2) \<Rightarrow> (Some (Return (Some err)), sent, tr2)
                 | (None, tr2) \<Rightarrow>
                     (None, sent, printf Stdout ''SKIP: Add %s (presubmit=none)\<newline>''
                                    [ArgStr (clString clListInfo)] tr2))
           else (case getTestsToRun w (projects_result clListInfo) tr1 of
                   (Inl err, tr2) \<Rightarrow> (Some (Return (Some err)), sent, tr2)
                 | (Inr tests, tr2) \<Rightarrow>
                     if length tests = 0
                     then (case postMessageFn s ''No tests found.\<newline>'' (refs clListInfo) True tr2 of
                             (Some err, tr3) \<Rightarrow> (Some (Return (Some err)), sent, tr3)
                           | (None, tr3) \<Rightarrow>
                               (None, sent, printf Stdout ''SKIP: Add %s (no tests found)\<newline>''
                                              [ArgStr (clString clListInfo)] tr3))
                     else if hasNonGoogleOwner clListInfo
                     then (case handleNonGoogleOwner w s (refs clListInfo)
                                  (projects_result clListInfo) tests tr2 of
                             (Some err, tr3) \<Rightarrow> (Some (Return (Some err)), sent, tr3)
                           | (None, tr3) \<Rightarrow>
                               (None, sent, printf Stdout ''SKIP: Add %s (non-google owner)\<newline>''
                                              [ArgStr (clString clListInfo)] tr3))
                     else (case removeOutdatedFn s (clMap clListInfo) tr2 of
                             (errs, tr3) \<Rightarrow>
                               (let tr4 = printErrors errs tr3;
                                    strCLs = Sprintf w ''Add %s'' [ArgStr (clString clListInfo)]
                                in case addPresubmitFn s curCLList tests tr4 of
                                     (Some err, tr5) \<Rightarrow>
                                       (None, sent,
                                        printf Stderr ''addPresubmitTestBuild failed: %v\<newline>''
                                          [ArgErr err]
                                          (printf Stdout ''FAIL: %s\<newline>'' [ArgStr strCLs] tr5))
                                   | (None, tr5) \<Rightarrow>
                                       (None, sent + int (length curCLList),
                                        printf Stdout ''PASS: %s\<newline>'' [ArgStr strCLs] tr5))))))"

fun sendCLListsLoop ::
  "world \<Rightarrow> clsSender \<Rightarrow> CLList list \<Rightarrow> int \<Rightarrow> trace \<Rightarrow> outcome \<times> int \<times> trace" where
  "sendCLListsLoop w s [] sent tr = (Return None, sent, tr)"
| "sendCLListsLoop w s (curCLList # rest) sent tr =
     (case sendCLList w s curCLList sent tr of
        (Some out, sent1, tr1) \<Rightarrow> (out, sent1, tr1)
      | (None, sent1, tr1) \<Rightarrow> sendCLListsLoop w s rest sent1 tr1)"

text \<open>\<open>sendCLListsToPresubmitTest\<close>: the outcome, the sender with its \<open>clsSent\<close> updated, and
  the trace.\<close>

definition sendCLListsToPresubmitTest ::
  "world \<Rightarrow> clsSender \<Rightarrow> trace \<Rightarrow> outcome \<times> clsSender \<times> trace" where
  "sendCLListsToPresubmitTest w s tr =
     (case sendCLListsLoop w s (clLists s) (clsSent s) tr of
        (out, sent, tr1) \<Rightarrow> (out, s\<lparr>clsSent := sent\<rparr>, tr1))"

section \<open>Removing outdated builds\<close>

text \<open>
  The loop of \<open>removeQueuedOutdatedBuilds\<close>. \<open>err\<close> is the variable of the enclosing
  function, assigned by the call of \<open>QueuedBuilds\<close>: the \<open>return err\<close> taken for a build
  without refs returns that variable (the \<open>err\<close> declared further down in the body is
  another variable).
\<close>

fun removeQueuedLoop ::
  "world \<Rightarrow> clNumberToPatchsetMap \<Rightarrow> error option \<Rightarrow> QueuedBuild list \<Rightarrow> trace
     \<Rightarrow> error option \<times> trace" where
  "removeQueuedLoop w cls err [] tr = (None, tr)"
| "removeQueuedLoop w cls err (build # rest) tr =
     (let rs = ParseRefs_QueuedBuild build in
      if rs = [] then (err, tr)
      else (case isBuildOutdated (ext_ParseRefString w) rs cls of
              Inl err1 \<Rightarrow> (Some err1, tr)
            | Inr buildOutdated \<Rightarrow>
                if buildOutdated
                then (case CancelQueuedBuild w
                             (Sprintf w ''%d'' [ArgInt (Id_QueuedBuild build)]) tr of
                        (Some err2, tr1) \<Rightarrow> (Some err2, tr1)
                      | (None, tr1) \<Rightarrow>
                          removeQueuedLoop w cls err rest
                            (printf Stdout ''Cancelled build %s as it is no longer current.\<newline>''
                               [ArgStr rs] tr1))
                else removeQueuedLoop w cls err rest tr))"

definition removeQueuedOutdatedBuilds ::
  "world \<Rightarrow> clNumberToPatchsetMap \<Rightarrow> trace \<Rightarrow> error option \<times> trace" where
  "removeQueuedOutdatedBuilds w cls tr =
     (case ext_Jenkins w (jenkinsHostFlag w) of
        Some err \<Rightarrow> (Some err, tr)
      | None \<Rightarrow>
          (case QueuedBuilds w (presubmitTestJobFlag w) tr of
             (Inl err, tr1) \<Rightarrow> (Some err, tr1)
           | (Inr queuedBuilds, tr1) \<Rightarrow> removeQueuedLoop w cls None queuedBuilds tr1))"

fun removeOngoingLoop ::
  "world \<Rightarrow> clNumberToPatchsetMap \<Rightarrow> BuildInfo list \<Rightarrow> trace \<Rightarrow> error option \<times> trace" where
  "removeOngoingLoop w cls [] tr = (None, tr)"
| "removeOngoingLoop w cls (buildInfo # rest) tr =
     (if \<not> Building buildInfo then removeOngoingLoop w cls rest tr
      else
        (let rs = ParseRefs_BuildInfo buildInfo in
         if rs \<noteq> [] then
           (case isBuildOutdated (ext_ParseRefString w) rs cls of
              Inl err \<Rightarrow> removeOngoingLoop w cls rest (fprintf Stderr ''%v\<newline>'' [ArgErr err] tr)
            | Inr buildOutdated \<Rightarrow>
                if buildOutdated
                then (case CancelOngoingBuild w (presubmitTestJobFlag w) (Number buildInfo) tr of
                        (Some err, tr1) \<Rightarrow> (Some err, tr1)
                      | (None, tr1) \<Rightarrow>
                          removeOngoingLoop w cls rest
                            (printf Stdout ''Cancelled build %s as it is no longer current.\<newline>''
                               [ArgStr rs] tr1))
                else removeOngoingLoop w cls rest tr)
         else removeOngoingLoop w cls rest tr))"

definition removeOngoingOutdatedBuilds ::
  "world \<Rightarrow> clNumberToPatchsetMap \<Rightarrow> trace \<Rightarrow> error option \<times> trace" where
  "removeOngoingOutdatedBuilds w cls tr =
     (case ext_Jenkins w (jenkinsHostFlag w) of
        Some err \<Rightarrow> (Some err, tr)
      | None \<Rightarrow>
          (case OngoingBuilds w (presubmitTestJobFlag w) tr of
             (Inl err, tr1) \<Rightarrow> (Some err, tr1)
           | (Inr buildInfos, tr1) \<Rightarrow> removeOngoingLoop w cls buildInfos tr1))"

text \<open>\<open>collect.Errors(fn, &errs)\<close> (package \<open>v.io/jiri/collect\<close>) runs \<open>fn\<close> and appends its
  error to \<open>errs\<close> when it is not \<open>nil\<close>; here \<open>r\<close> is the error \<open>fn\<close> returned.\<close>

definition collectErrors :: "error option \<Rightarrow> error option list \<Rightarrow> error option list" where
  "collectErrors r errs = (case r of Some err \<Rightarrow> errs @ [Some err] | None \<Rightarrow> errs)"

definition removeOutdatedBuilds ::
  "world \<Rightarrow> clNumberToPatchsetMap \<Rightarrow> trace \<Rightarrow> error option list \<times> trace" where
  "removeOutdatedBuilds w cls tr =
     (case removeQueuedOutdatedBuilds w cls tr of
        (r1, tr1) \<Rightarrow>
          (case removeOngoingOutdatedBuilds w cls tr1 of
             (r2, tr2) \<Rightarrow> (collectErrors r2 (collectErrors r1 []), tr2)))"

definition addPresubmitTestBuild ::
  "world \<Rightarrow> CLList \<Rightarrow> string list \<Rightarrow> trace \<Rightarrow> error option \<times> trace" where
  "addPresubmitTestBuild w cls tests tr =
     (case ext_Jenkins w (jenkinsHostFlag w) of
        Some err \<Rightarrow> (Some err, tr)
      | None \<Rightarrow>
          (let rs = map Reference cls;
               ps = map Project cls
           in AddBuildWithParameter w (presubmitTestJobFlag w)
                (fmap_of_list [(''REFS'', [Join rs '':'']),
                               (''PROJECTS'', [Join ps '':'']),
                               (''TESTS'', [Join tests '' ''])]) tr))"

section \<open>The query command\<close>

text \<open>The loop of \<open>runQuery\<close> over the multi-part errors: each is printed, and a
  \<open>*gerrit.ChangeError\<close> is also posted to Gerrit; a failure to post is printed.\<close>

fun postMultiPartErrs :: "world \<Rightarrow> error list \<Rightarrow> trace \<Rightarrow> trace" where
  "postMultiPartErrs w [] tr = tr"
| "postMultiPartErrs w (e # rest) tr =
     (let tr1 = printf Stderr ''%v\<newline>'' [ArgErr e] tr in
      case e of
        ChangeError cl mpErr \<Rightarrow>
          (let clRef = Reference cl;
               msg = Sprintf w ''failed to process multi-part CL %s:\<newline>%v\<newline>''
                       [ArgStr clRef, ArgErr mpErr]
           in case postMessage w msg [clRef] False tr1 of
                (Some postErr, tr2) \<Rightarrow>
                  postMultiPartErrs w rest (printf Stderr ''%v\<newline>'' [ArgErr postErr] tr2)
              | (None, tr2) \<Rightarrow> postMultiPartErrs w rest tr2)
      | Error m \<Rightarrow> postMultiPartErrs w rest tr1)"

fun submitLoop :: "world \<Rightarrow> CLList list \<Rightarrow> trace \<Rightarrow> error option \<times> trace" where
  "submitLoop w [] tr = (None, tr)"
| "submitLoop w (curCLList # rest) tr =
     (case submitCLs w curCLList tr of
        (Some err, tr1) \<Rightarrow> (Some err, tr1)
      | (None, tr1) \<Rightarrow> submitLoop w rest tr1)"

text \<open>
  The second half of \<open>runQuery\<close>, from the comment \<open>Get new clLists\<close> to the end. The
  result carries \<open>numSentCLs\<close>, which the deferred function prints: it is \<open>0\<close> unless
  \<open>sendCLListsToPresubmitTest\<close> returned \<open>nil\<close>.
\<close>

definition runQuerySend ::
  "world \<Rightarrow> clNumberToPatchsetMap \<Rightarrow> CLList \<Rightarrow> trace \<Rightarrow> outcome \<times> int \<times> trace" where
  "runQuerySend w prevCLsMap curCLs tr =
     (case NewOpenCLs w prevCLsMap curCLs of
        (newCLLists, multiPartErrs) \<Rightarrow>
          (let tr1 = postMultiPartErrs w multiPartErrs tr in
           case LoadManifest w tr1 of
             (Inl err, tr2) \<Rightarrow> (Return (Some err), 0, tr2)
           | (Inr ps, tr2) \<Rightarrow>
               (let sender = \<lparr>clLists = newCLLists, projects = ps, clsSent = 0,
                              removeOutdatedFn = removeOutdatedBuilds w,
                              addPresubmitFn = addPresubmitTestBuild w,
                              postMessageFn = postMessage w\<rparr>
                in case sendCLListsToPresubmitTest w sender tr2 of
                     (Panic, sender1, tr3) \<Rightarrow> (Panic, 0, tr3)
                   | (Return (Some err), sender1, tr3) \<Rightarrow> (Return (Some err), 0, tr3)
                   | (Return None, sender1, tr3) \<Rightarrow>
                       (let numSentCLs = 0 + clsSent sender1 in
                        case getSubmittableCLs w curCLs tr3 of
                          (submittableCLs, tr4) \<Rightarrow>
                            (let tr5 = (if length submittableCLs > 0
                                        then fprintf Stdout ''Submitting CLs...\<newline>'' [] tr4
                                        else tr4)
                             in case submitLoop w submittableCLs tr5 of
                                  (Some err, tr6) \<Rightarrow> (Return (Some err), numSentCLs, tr6)
                                | (None, tr6) \<Rightarrow> (Return None, numSentCLs, tr6))))))"

text \<open>The body of \<open>runQuery\<close>: the outcome, \<open>numSentCLs\<close> and the trace.\<close>

definition runQueryBody :: "world \<Rightarrow> trace \<Rightarrow> outcome \<times> int \<times> trace" where
  "runQueryBody w tr =
     (case ext_Jenkins w (jenkinsHostFlag w) of
        Some err \<Rightarrow> (Return (Some err), 0, tr)
      | None \<Rightarrow>
          (case LastCompletedBuildStatus w (presubmitTestJobFlag w) tr of
             (lastBuildInfo, tr1) \<Rightarrow>
               if lastBuildInfo = Inr ''FAILURE''
               then (Return None, 0,
                     printf Stdout ''%s is failing. Skipping this round.\<newline>''
                       [ArgStr (presubmitTestJobFlag w)] tr1)
               else
                 (let tr2 = (case lastBuildInfo of
                               Inl err \<Rightarrow> fprintf Stderr ''%v\<newline>'' [ArgErr err] tr1
                             | Inr result \<Rightarrow> tr1)
                  in case ReadLog w (logFilePathFlag w) tr2 of
                       (Inl err, tr3) \<Rightarrow> (Return (Some err), 0, tr3)
                     | (Inr prevCLsMap, tr3) \<Rightarrow>
                         (case gerritBaseUrl w of
                            Inl err \<Rightarrow> (Return (Some err), 0, tr3)
                          | Inr gUrl \<Rightarrow>
                              (case Query w gUrl (queryStringFlag w) tr3 of
                                 (Inl err, tr4) \<Rightarrow>
                                   (Return (Some (Error (Sprintf w ''Query(%q) failed: %v''
                                      [ArgStr (queryStringFlag w), ArgErr err]))), 0, tr4)
                               | (Inr curCLs, tr4) \<Rightarrow>
                                   (case WriteLog w (logFilePathFlag w) curCLs tr4 of
                                      (Some err, tr5) \<Rightarrow> (Return (Some err), 0, tr5)
                                    | (None, tr5) \<Rightarrow>
                                        if jenkinsHostFlag w = []
                                        then (Return None, 0,
                                              printf Stdout
                                                ''Not sending CLs to run presubmit tests due to empty Jenkins host.\<newline>''
                                                [] tr5)
                                        else if fmdom prevCLsMap = {||}
                                        then (Return None, 0,
                                              printf Stdout
                                                ''Not sending CLs to run presubmit tests due to empty log file.\<newline>''
                                                [] tr5)
                                        else runQuerySend w prevCLsMap curCLs tr5))))))"

text \<open>\<open>runQuery\<close>: the body, then the deferred function, which prints how many CLs were
  sent (it also runs when the body panics).\<close>

definition runQuery :: "world \<Rightarrow> trace \<Rightarrow> outcome \<times> trace" where
  "runQuery w tr =
     (case runQueryBody w tr of
        (out, numSentCLs, tr1) \<Rightarrow>
          (out, printf Stdout ''%d sent.\<newline>'' [ArgInt numSentCLs] tr1))"

section \<open>A concrete world\<close>

text \<open>
  A small world and a few changes, at which the theorems below are instantiated. In this
  world Jenkins and Gerrit answer every call without error, no build is queued or
  running, the log of the previous run holds patchset \<open>1\<close> of change \<open>1000\<close>, the query
  returns one open change, every open change is a new group of its own, and the project
  \<open>release.go.core\<close> has two tests, one of them in two parts.
\<close>

text \<open>A plain stand-in for \<open>fmt.Sprintf\<close>: every verb is replaced by its argument, a
  string as it is, an int in decimal, an error by its message; for \<open>%q\<close> the text is put
  in double quotes, with a backslash before a double quote or a backslash in it (as Go
  prints a string of printable ASCII characters).\<close>

fun showError :: "error \<Rightarrow> string" where
  "showError (Error m) = m"
| "showError (ChangeError cl err) = showError err"

fun showArg :: "fmtarg \<Rightarrow> string" where
  "showArg (ArgStr s) = s"
| "showArg (ArgInt i) = (if i < 0 then CHR ''-'' # decimal (nat (- i)) else decimal (nat i))"
| "showArg (ArgErr err) = showError err"

definition quoted :: "string \<Rightarrow> string" where
  "quoted s =
     CHR 0x22 #
     concat (map (\<lambda>c. if c = CHR 0x22 \<or> c = CHR 0x5C then [CHR 0x5C, c] else [c]) s) @
     [CHR 0x22]"

fun exampleSprintf :: "string \<Rightarrow> fmtarg list \<Rightarrow> string" where
  "exampleSprintf [] args = []"
| "exampleSprintf [c] args = [c]"
| "exampleSprintf (c # d # cs) args =
     (if c = CHR ''%''
      then (case args of
              [] \<Rightarrow> c # d # exampleSprintf cs []
            | a # rest \<Rightarrow>
                (if d = CHR ''q'' then quoted (showArg a) else showArg a) @
                exampleSprintf cs rest)
      else c # exampleSprintf (d # cs) args)"

definition exampleConfig :: Config where
  "exampleConfig =
     \<lparr>ProjectTests = (\<lambda>ps. if ''release.go.core'' \<in> set ps
                            then [''vanadium-go-test'', ''vanadium-go-build''] else []),
      TestParts = (\<lambda>test. if test = ''vanadium-go-test''
                           then Some [''v.io/x/ref/...'', ''v.io/x/lib/...''] else None)\<rparr>"

definition clGoogle :: Change where
  "clGoogle = \<lparr>Project = ''release.go.core'', Reference = ''refs/changes/00/1000/2'',
               OwnerEmail = ''alice@google.com'', PresubmitTest = PresubmitTestTypeAll\<rparr>"

definition clExternal :: Change where
  "clExternal = \<lparr>Project = ''release.go.core'', Reference = ''refs/changes/01/1001/1'',
                 OwnerEmail = ''mallory@example.com'', PresubmitTest = PresubmitTestTypeAll\<rparr>"


definition clBadRef :: Change where
  "clBadRef = \<lparr>Project = ''release.go.core'', Reference = ''refs/changes/1003'',
               OwnerEmail = ''carol@google.com'', PresubmitTest = PresubmitTestTypeAll\<rparr>"

definition exampleWorld :: world where
  "exampleWorld =
     \<lparr>jenkinsHostFlag = ''http://jenkins'',
      presubmitTestJobFlag = ''presubmit-test'',
      queryStringFlag = ''status:open'',
      logFilePathFlag = ''presubmit_log'',
      Sprintf = exampleSprintf,
      ext_ParseRefString = ParseRefString,
      NewOpenCLs = (\<lambda>prevCLsMap curCLs. (map (\<lambda>cl. [cl]) curCLs, [])),
      gerritBaseUrl = Inr ''https://gerrit'',
      genStartPresubmitBuildLink = (\<lambda>rs ps tests. ''https://jenkins/start''),
      ext_Jenkins = (\<lambda>host. None),
      ext_LastCompletedBuildStatus = (\<lambda>tr job. Inr ''SUCCESS''),
      ext_ReadLog = (\<lambda>tr path. Inr (fmap_of_list [(1000, 1)])),
      ext_Query = (\<lambda>tr gUrl q. Inr [clGoogle]),
      ext_WriteLog = (\<lambda>tr path cls. None),
      ext_postMessage = (\<lambda>tr message rs success. None),
      ext_LoadManifest = (\<lambda>tr. Inr (Some [''release.go.core''])),
      ext_LoadConfig = (\<lambda>tr. Inr exampleConfig),
      ext_QueuedBuilds = (\<lambda>tr job. Inr []),
      ext_OngoingBuilds = (\<lambda>tr job. Inr []),
      ext_CancelQueuedBuild = (\<lambda>tr buildId. None),
      ext_CancelOngoingBuild = (\<lambda>tr job number. None),
      ext_AddBuildWithParameter = (\<lambda>tr job params. None),
      ext_getSubmittableCLs = (\<lambda>tr cls. []),
      ext_submitCLs = (\<lambda>tr cls. None)\<rparr>"

text \<open>The same world, where Jenkins refuses every new build, where no message can be
  posted to Gerrit, where the query to Gerrit fails, and where the log file cannot be
  written.\<close>

definition queryFailsWorld :: world where
  "queryFailsWorld =
     exampleWorld\<lparr>ext_Query := (\<lambda>tr gUrl q. Inl (Error ''connection refused''))\<rparr>"

definition writeFailsWorld :: world where
  "writeFailsWorld =
     exampleWorld\<lparr>ext_WriteLog := (\<lambda>tr path cls. Some (Error ''disk full''))\<rparr>"

text \<open>The same world, where the last presubmit-test build failed, and where its status
  cannot be fetched.\<close>

definition lastBuildFailedWorld :: world where
  "lastBuildFailedWorld =
     exampleWorld\<lparr>ext_LastCompletedBuildStatus := (\<lambda>tr job. Inr ''FAILURE'')\<rparr>"

definition statusFailsWorld :: world where
  "statusFailsWorld =
     exampleWorld\<lparr>ext_LastCompletedBuildStatus := (\<lambda>tr job. Inl (Error ''timeout''))\<rparr>"




text \<open>The sender that \<open>runQuery\<close> builds, for the groups \<open>groups\<close>.\<close>

definition exampleSender :: "world \<Rightarrow> CLList list \<Rightarrow> clsSender" where
  "exampleSender w groups =
     \<lparr>clLists = groups, projects = Some [''release.go.core''], clsSent = 0,
      removeOutdatedFn = removeOutdatedBuilds w,
      addPresubmitFn = addPresubmitTestBuild w,
      postMessageFn = postMessage w\<rparr>"

section \<open>Traces\<close>

text \<open>
  \<open>runQuery\<close> itself asks Jenkins for the last build, reads the log, queries Gerrit and
  writes the log. Every other event belongs to the sending of change lists:
  \<open>sendEvent\<close>. \<open>sends tr tr'\<close> says that \<open>tr'\<close> extends \<open>tr\<close> by such events only.
\<close>

fun sendEvent :: "event \<Rightarrow> bool" where
  "sendEvent (E_LastCompletedBuildStatus job r) = False"
| "sendEvent (E_ReadLog path r) = False"
| "sendEvent (E_Query gUrl q r) = False"
| "sendEvent (E_WriteLog path cls r) = False"
| "sendEvent e = True"

definition sends :: "trace \<Rightarrow> trace \<Rightarrow> bool" where
  "sends tr tr' \<longleftrightarrow> (\<exists>new. tr' = tr @ new \<and> list_all sendEvent new)"

text \<open>A sender whose three function fields only add such events.\<close>

definition senderSends :: "clsSender \<Rightarrow> bool" where
  "senderSends s \<longleftrightarrow>
     (\<forall>a cls tr. sends a tr \<longrightarrow> sends a (snd (removeOutdatedFn s cls tr))) \<and>
     (\<forall>a cls tests tr. sends a tr \<longrightarrow> sends a (snd (addPresubmitFn s cls tests tr))) \<and>
     (\<forall>a m rs b tr. sends a tr \<longrightarrow> sends a (snd (postMessageFn s m rs b tr)))"

text \<open>The events of a run up to the reading of the log: the status of the last build,
  which is not \<open>FAILURE\<close>, or the failure to fetch it and the line that reports it.\<close>

definition statusEvents :: "world \<Rightarrow> trace \<Rightarrow> bool" where
  "statusEvents w pre \<longleftrightarrow>
     (\<exists>r. r \<noteq> ''FAILURE'' \<and> pre = [E_LastCompletedBuildStatus (presubmitTestJobFlag w) (Inr r)]) \<or>
     (\<exists>e. pre = [E_LastCompletedBuildStatus (presubmitTestJobFlag w) (Inl e),
                Fprintf Stderr ''%v\<newline>'' [ArgErr e]])"

text \<open>
  What a run does from the reading of the log on, in terms of its outcome \<open>out\<close> and its
  trace \<open>tr\<close>, where \<open>pre\<close> are the events before: the log is read; when that succeeds
  and the Gerrit URL is known, Gerrit is queried with the query string; when that
  succeeds, the result is written to the log file; when that succeeds, the Jenkins host
  is set and the previous log was not empty, the rest of the run is that of
  \<open>runQuerySend\<close>. Each failure is returned at once, and the count of sent CLs that the
  run prints last is \<open>0\<close> unless the sending phase is reached.
\<close>

definition continuesNormally :: "world \<Rightarrow> trace \<Rightarrow> outcome \<Rightarrow> trace \<Rightarrow> bool" where
  "continuesNormally w pre out tr \<longleftrightarrow>
     (\<exists>rd rest. tr = pre @ E_ReadLog (logFilePathFlag w) rd # rest \<and>
        (case rd of
           Inl e \<Rightarrow> out = Return (Some e) \<and> rest = [Printf Stdout ''%d sent.\<newline>'' [ArgInt 0]]
         | Inr prevCLsMap \<Rightarrow>
             (case gerritBaseUrl w of
                Inl e \<Rightarrow>
                  out = Return (Some e) \<and> rest = [Printf Stdout ''%d sent.\<newline>'' [ArgInt 0]]
              | Inr gUrl \<Rightarrow>
                  (\<exists>q rest2. rest = E_Query gUrl (queryStringFlag w) q # rest2 \<and>
                     (case q of
                        Inl e \<Rightarrow>
                          out = Return (Some (Error (Sprintf w ''Query(%q) failed: %v''
                                  [ArgStr (queryStringFlag w), ArgErr e]))) \<and>
                          rest2 = [Printf Stdout ''%d sent.\<newline>'' [ArgInt 0]]
                      | Inr curCLs \<Rightarrow>
                          (\<exists>wr rest3. rest2 = E_WriteLog (logFilePathFlag w) curCLs wr # rest3 \<and>
                             (case wr of
                                Some e \<Rightarrow>
                                  out = Return (Some e) \<and>
                                  rest3 = [Printf Stdout ''%d sent.\<newline>'' [ArgInt 0]]
                              | None \<Rightarrow>
                                  if jenkinsHostFlag w = []
                                  then out = Return None \<and>
                                       rest3 =
                                         [Printf Stdout
                                            ''Not sending CLs to run presubmit tests due to empty Jenkins host.\<newline>''
                                            [],
                                          Printf Stdout ''%d sent.\<newline>'' [ArgInt 0]]
                                  else if fmdom prevCLsMap = {||}
                                  then out = Return None \<and>
                                       rest3 =
                                         [Printf Stdout
                                            ''Not sending CLs to run presubmit tests due to empty log file.\<newline>''
                                            [],
                                          Printf Stdout ''%d sent.\<newline>'' [ArgInt 0]]
                                  else (\<exists>n tr'.
                                          runQuerySend w prevCLsMap curCLs
                                            (pre @ [E_ReadLog (logFilePathFlag w) rd,
                                                    E_Query gUrl (queryStringFlag w) q,
                                                    E_WriteLog (logFilePathFlag w) curCLs wr]) =
                                            (out, n, tr') \<and>
                                          tr = tr' @ [Printf Stdout ''%d sent.\<newline>'' [ArgInt n]]))))))))"

section \<open>Properties of the outdated-build check\<close>

lemma sortedKeys_eq_iff: "sortedKeys a = sortedKeys b \<longleftrightarrow> fmdom a = fmdom b"
proof
  assume "sortedKeys a = sortedKeys b"
  then have "fset_of_list (sorted_list_of_fset (fmdom a)) =
             fset_of_list (sorted_list_of_fset (fmdom b))"
    by (simp add: sortedKeys_def)
  then show "fmdom a = fmdom b" by simp
next
  assume "fmdom a = fmdom b"
  then show "sortedKeys a = sortedKeys b" by (simp add: sortedKeys_def)
qed

lemma set_sortedKeys: "set (sortedKeys m) = fmdom' m"
  by (simp add: sortedKeys_def fmdom'_alt_def)

lemma index_Some: "fmlookup m k = Some v \<Longrightarrow> index m k = v"
  by (simp add: index_def)

lemma checkPatchsets_iff:
  "checkPatchsets curCLs newCLs ks \<longleftrightarrow> (\<forall>k \<in> set ks. index curCLs k \<le> index newCLs k)"
  by (induction ks) auto

lemma overlapOutdated_iff:
  "overlapOutdated curCLs newCLs ks \<longleftrightarrow>
     (\<exists>k \<in> set ks. \<exists>np. fmlookup newCLs k = Some np \<and> index curCLs k \<le> np)"
  by (induction ks) (auto split: option.splits)

text \<open>
  C1. When the refs of a build parse into a map \<open>curCLs\<close> with the same change numbers as
  the registry \<open>newCLs\<close>, \<open>isBuildOutdated\<close> returns \<open>true\<close> exactly when every change
  number has a registry patchset greater than or equal to the build's patchset, and
  \<open>false\<close> exactly when some change number has a registry patchset strictly smaller than
  the build's.
\<close>

theorem isBuildOutdated_same_cl_numbers:
  assumes parsed: "parseRefs prs (Split curRefs CHR '':'') fmempty = Inr curCLs"
      and same: "fmdom curCLs = fmdom newCLs"
  shows "(isBuildOutdated prs curRefs newCLs = Inr True \<longleftrightarrow>
            (\<forall>k cp np. fmlookup curCLs k = Some cp \<and> fmlookup newCLs k = Some np \<longrightarrow> np \<ge> cp))
       \<and> (isBuildOutdated prs curRefs newCLs = Inr False \<longleftrightarrow>
            (\<exists>k cp np. fmlookup curCLs k = Some cp \<and> fmlookup newCLs k = Some np \<and> np < cp))"
proof -
  have keys: "sortedKeys curCLs = sortedKeys newCLs"
    using same by (simp add: sortedKeys_eq_iff)
  have res: "isBuildOutdated prs curRefs newCLs =
               Inr (checkPatchsets curCLs newCLs (sortedKeys newCLs))"
    using parsed keys by (simp add: isBuildOutdated_def)
  have dom: "k \<in> fmdom' newCLs \<longleftrightarrow> (\<exists>cp. fmlookup curCLs k = Some cp)" for k
    using same by (metis fmlookup_dom_iff fmlookup_dom'_iff)
  have chk: "checkPatchsets curCLs newCLs (sortedKeys newCLs) \<longleftrightarrow>
          (\<forall>k cp np. fmlookup curCLs k = Some cp \<and> fmlookup newCLs k = Some np \<longrightarrow> np \<ge> cp)"
    (is "?L \<longleftrightarrow> ?R")
  proof
    assume L: ?L
    show ?R
    proof (intro allI impI)
      fix k cp np
      assume h: "fmlookup curCLs k = Some cp \<and> fmlookup newCLs k = Some np"
      then have "k \<in> fmdom' newCLs" by (simp add: fmlookup_dom'_iff)
      with L have "index curCLs k \<le> index newCLs k"
        by (simp add: checkPatchsets_iff set_sortedKeys)
      with h show "np \<ge> cp" by (simp add: index_Some)
    qed
  next
    assume R: ?R
    have "index curCLs k \<le> index newCLs k" if kin: "k \<in> fmdom' newCLs" for k
    proof -
      obtain np where np: "fmlookup newCLs k = Some np"
        using kin unfolding fmlookup_dom'_iff by blast
      obtain cp where cp: "fmlookup curCLs k = Some cp"
        using kin dom by blast
      from R np cp have "cp \<le> np" by blast
      with np cp show ?thesis by (simp add: index_Some)
    qed
    then show ?L by (simp add: checkPatchsets_iff set_sortedKeys)
  qed
  show ?thesis
    unfolding res chk by (auto simp: not_le)
qed

theorem isBuildOutdated_same_cl_numbers_witness:
  "parseRefs ParseRefString
      (Split ''refs/changes/00/1000/1:refs/changes/00/2000/3'' CHR '':'') fmempty =
        Inr (fmap_of_list [(2000, 3), (1000, 1)])
   \<and> fmdom (fmap_of_list [(2000::int, 3::int), (1000, 1)]) =
       fmdom (fmap_of_list [(1000::int, 2::int), (2000, 1)])
   \<and> isBuildOutdated ParseRefString ''refs/changes/00/1000/1:refs/changes/00/2000/3''
         (fmap_of_list [(1000, 2), (2000, 1)]) = Inr False"
proof -
  have p: "parseRefs ParseRefString
      (Split ''refs/changes/00/1000/1:refs/changes/00/2000/3'' CHR '':'') fmempty =
        Inr (fmap_of_list [(2000, 3), (1000, 1)])"
    by code_simp
  have d: "fmdom (fmap_of_list [(2000::int, 3::int), (1000, 1)]) =
           fmdom (fmap_of_list [(1000::int, 2::int), (2000, 1)])"
    by auto
  have e: "\<exists>k cp np. fmlookup (fmap_of_list [(2000::int, 3::int), (1000, 1)]) k = Some cp \<and>
        fmlookup (fmap_of_list [(1000::int, 2::int), (2000, 1)]) k = Some np \<and> np < cp"
    by (intro exI[of _ 2000] exI[of _ 3] exI[of _ 1]) simp
  from isBuildOutdated_same_cl_numbers [OF p d] e p d show ?thesis by blast
qed

text \<open>
  C2. When the refs of a build parse into a map \<open>curCLs\<close> whose change numbers differ from
  those of the registry \<open>newCLs\<close>, \<open>isBuildOutdated\<close> returns \<open>true\<close> exactly when some
  change number present in both maps has a registry patchset greater than or equal to
  the build's patchset. In particular, for the registry \<open>{1000: 2, 2000: 1}\<close> and refs
  that parse to \<open>{1000: 1}\<close> it returns \<open>true\<close>.
\<close>

theorem isBuildOutdated_different_cl_numbers:
  assumes parsed: "parseRefs prs (Split curRefs CHR '':'') fmempty = Inr curCLs"
  shows "(fmdom curCLs \<noteq> fmdom newCLs \<longrightarrow>
            isBuildOutdated prs curRefs newCLs =
              Inr (\<exists>k cp np. fmlookup curCLs k = Some cp \<and> fmlookup newCLs k = Some np \<and> np \<ge> cp))
       \<and> (curCLs = fmap_of_list [(1000, 1)] \<longrightarrow>
            isBuildOutdated prs curRefs (fmap_of_list [(1000, 2), (2000, 1)]) = Inr True)"
proof -
  have general: "isBuildOutdated prs curRefs newCLs =
      Inr (\<exists>k cp np. fmlookup curCLs k = Some cp \<and> fmlookup newCLs k = Some np \<and> np \<ge> cp)"
    if differ: "fmdom curCLs \<noteq> fmdom newCLs" for newCLs
  proof -
  have keys: "sortedKeys curCLs \<noteq> sortedKeys newCLs"
    using differ by (simp add: sortedKeys_eq_iff)
  have res: "isBuildOutdated prs curRefs newCLs =
               Inr (overlapOutdated curCLs newCLs (sortedKeys curCLs))"
    using parsed keys by (simp add: isBuildOutdated_def)
  have "overlapOutdated curCLs newCLs (sortedKeys curCLs) \<longleftrightarrow>
          (\<exists>k cp np. fmlookup curCLs k = Some cp \<and> fmlookup newCLs k = Some np \<and> np \<ge> cp)"
    (is "?L \<longleftrightarrow> ?R")
  proof
    assume ?L
    then obtain k np where k: "k \<in> fmdom' curCLs" and np: "fmlookup newCLs k = Some np"
      and le: "index curCLs k \<le> np"
      by (auto simp: overlapOutdated_iff set_sortedKeys)
    from k obtain cp where cp: "fmlookup curCLs k = Some cp"
      unfolding fmlookup_dom'_iff by blast
    with le have "cp \<le> np" by (simp add: index_Some)
    with cp np show ?R by blast
  next
    assume ?R
    then obtain k cp np where cp: "fmlookup curCLs k = Some cp"
      and np: "fmlookup newCLs k = Some np" and le: "cp \<le> np" by blast
    have "k \<in> fmdom' curCLs" using cp by (simp add: fmlookup_dom'_iff)
    moreover have "index curCLs k \<le> np" using cp le by (simp add: index_Some)
    ultimately show ?L using np by (auto simp: overlapOutdated_iff set_sortedKeys)
  qed
    then show ?thesis unfolding res by simp
  qed
  have particular: "isBuildOutdated prs curRefs (fmap_of_list [(1000, 2), (2000, 1)]) = Inr True"
    if cur: "curCLs = fmap_of_list [(1000, 1)]"
  proof -
    have "fmdom curCLs \<noteq> fmdom (fmap_of_list [(1000::int, 2::int), (2000, 1)])"
      unfolding cur by auto
    moreover have "\<exists>k cp np. fmlookup curCLs k = Some cp \<and>
        fmlookup (fmap_of_list [(1000::int, 2::int), (2000, 1)]) k = Some np \<and> np \<ge> cp"
      unfolding cur by (intro exI[of _ 1000] exI[of _ 1] exI[of _ 2]) simp
    ultimately show ?thesis using general by simp
  qed
  from general particular show ?thesis by blast
qed

theorem isBuildOutdated_different_cl_numbers_witness:
  "parseRefs ParseRefString (Split ''refs/changes/00/1000/1'' CHR '':'') fmempty =
        Inr (fmap_of_list [(1000, 1)])
   \<and> fmdom (fmap_of_list [(1000::int, 1::int)]) \<noteq>
       fmdom (fmap_of_list [(1000::int, 2::int), (2000, 1)])
   \<and> isBuildOutdated ParseRefString ''refs/changes/00/1000/1''
         (fmap_of_list [(1000, 2), (2000, 1)]) = Inr True"
proof -
  have p: "parseRefs ParseRefString (Split ''refs/changes/00/1000/1'' CHR '':'') fmempty =
        Inr (fmap_of_list [(1000, 1)])"
    by code_simp
  have d: "fmdom (fmap_of_list [(1000::int, 1::int)]) \<noteq>
           fmdom (fmap_of_list [(1000::int, 2::int), (2000, 1)])"
    by auto
  from isBuildOutdated_different_cl_numbers [OF p, of "fmap_of_list [(1000, 2), (2000, 1)]"] p d
  show ?thesis by blast
qed

section \<open>Properties of traces\<close>

text \<open>Every function of the sending phase only adds events of that phase. The lemmas
  are stated on the trace component of the result, so that they compose by rewriting.\<close>

lemma sends_refl [simp]: "sends tr tr"
  by (simp add: sends_def)

lemma sends_trans: "sends a b \<Longrightarrow> sends b c \<Longrightarrow> sends a c"
  unfolding sends_def by (metis append.assoc list_all_append)

lemma sends_snoc: "sends a b \<Longrightarrow> sendEvent e \<Longrightarrow> sends a (b @ [e])"
  unfolding sends_def by force

lemma sends_printf [intro]: "sends a b \<Longrightarrow> sends a (printf out format args b)"
  by (simp add: printf_def sends_snoc)

lemma sends_fprintf [intro]: "sends a b \<Longrightarrow> sends a (fprintf out format args b)"
  by (simp add: fprintf_def sends_snoc)

lemma sends_call:
  "(\<And>r. sendEvent (ev r)) \<Longrightarrow> sends a tr \<Longrightarrow> sends a (snd (call answer ev tr))"
  by (simp add: call_def Let_def sends_snoc)

lemma postMessage_sends [intro]: "sends a tr \<Longrightarrow> sends a (snd (postMessage w m rs b tr))"
  unfolding postMessage_def by (rule sends_call) simp_all
lemma LoadManifest_sends [intro]: "sends a tr \<Longrightarrow> sends a (snd (LoadManifest w tr))"
  unfolding LoadManifest_def by (rule sends_call) simp_all
lemma LoadConfig_sends [intro]: "sends a tr \<Longrightarrow> sends a (snd (LoadConfig w tr))"
  unfolding LoadConfig_def by (rule sends_call) simp_all
lemma QueuedBuilds_sends [intro]: "sends a tr \<Longrightarrow> sends a (snd (QueuedBuilds w job tr))"
  unfolding QueuedBuilds_def by (rule sends_call) simp_all
lemma OngoingBuilds_sends [intro]: "sends a tr \<Longrightarrow> sends a (snd (OngoingBuilds w job tr))"
  unfolding OngoingBuilds_def by (rule sends_call) simp_all
lemma CancelQueuedBuild_sends [intro]: "sends a tr \<Longrightarrow> sends a (snd (CancelQueuedBuild w i tr))"
  unfolding CancelQueuedBuild_def by (rule sends_call) simp_all
lemma CancelOngoingBuild_sends [intro]:
  "sends a tr \<Longrightarrow> sends a (snd (CancelOngoingBuild w job n tr))"
  unfolding CancelOngoingBuild_def by (rule sends_call) simp_all
lemma AddBuildWithParameter_sends [intro]:
  "sends a tr \<Longrightarrow> sends a (snd (AddBuildWithParameter w job p tr))"
  unfolding AddBuildWithParameter_def by (rule sends_call) simp_all
lemma getSubmittableCLs_sends [intro]:
  "sends a tr \<Longrightarrow> sends a (snd (getSubmittableCLs w cls tr))"
  unfolding getSubmittableCLs_def by (rule sends_call) simp_all
lemma submitCLs_sends [intro]: "sends a tr \<Longrightarrow> sends a (snd (submitCLs w cls tr))"
  unfolding submitCLs_def by (rule sends_call) simp_all

lemma isKnownProject_sends [intro]:
  "sends a tr \<Longrightarrow> sends a (snd (isKnownProject cl ps tr))"
  by (simp add: isKnownProject_def Let_def sends_printf)

lemma processCLListLoop_sends:
  "sends a tr \<Longrightarrow> sends a (snd (processCLListLoop w s cls v tr))"
proof (induction cls arbitrary: v tr)
  case Nil
  then show ?case by simp
next
  case (Cons curCL rest)
  then show ?case
    by (simp add: case_prod_beta Let_def sends_printf isKnownProject_sends
          split: option.split sum.split bool.split)
qed

lemma processCLList_sends [intro]: "sends a tr \<Longrightarrow> sends a (snd (processCLList w s cls tr))"
  by (simp add: processCLList_def case_prod_beta processCLListLoop_sends split: option.split)

lemma getTestsToRun_sends [intro]: "sends a tr \<Longrightarrow> sends a (snd (getTestsToRun w ps tr))"
  by (simp add: getTestsToRun_def case_prod_beta Let_def LoadConfig_sends split: sum.split)

lemma printErrors_sends [intro]: "sends a b \<Longrightarrow> sends a (printErrors errs b)"
  by (induction errs b rule: printErrors.induct) auto

lemma senderSends_remove:
  "senderSends s \<Longrightarrow> sends a tr \<Longrightarrow> sends a (snd (removeOutdatedFn s cls tr))"
  unfolding senderSends_def by blast
lemma senderSends_add:
  "senderSends s \<Longrightarrow> sends a tr \<Longrightarrow> sends a (snd (addPresubmitFn s cls tests tr))"
  unfolding senderSends_def by blast
lemma senderSends_post:
  "senderSends s \<Longrightarrow> sends a tr \<Longrightarrow> sends a (snd (postMessageFn s m rs b tr))"
  unfolding senderSends_def by blast

lemma handleNonGoogleOwner_sends:
  "senderSends s \<Longrightarrow> sends a tr \<Longrightarrow> sends a (snd (handleNonGoogleOwner w s rs ps tests tr))"
  by (simp add: handleNonGoogleOwner_def Let_def senderSends_post)

lemma sendCLList_sends:
  assumes ss: "senderSends s" and a: "sends a tr"
  shows "sends a (snd (snd (sendCLList w s g sent tr)))"
  unfolding sendCLList_def Let_def
  by (simp add: case_prod_beta a ss sends_printf processCLList_sends getTestsToRun_sends
        printErrors_sends senderSends_post senderSends_add senderSends_remove
        handleNonGoogleOwner_sends
        split: option.split sum.split)

lemma sendCLListsLoop_sends:
  "senderSends s \<Longrightarrow> sends a tr \<Longrightarrow> sends a (snd (snd (sendCLListsLoop w s gs sent tr)))"
proof (induction gs arbitrary: sent tr)
  case Nil
  then show ?case by simp
next
  case (Cons g gs)
  then show ?case
    by (simp add: case_prod_beta sendCLList_sends split: option.split)
qed

lemma sendCLListsToPresubmitTest_sends:
  "senderSends s \<Longrightarrow> sends a tr \<Longrightarrow> sends a (snd (snd (sendCLListsToPresubmitTest w s tr)))"
  by (simp add: sendCLListsToPresubmitTest_def case_prod_beta sendCLListsLoop_sends)

lemma removeQueuedLoop_sends:
  "sends a tr \<Longrightarrow> sends a (snd (removeQueuedLoop w cls err builds tr))"
proof (induction builds arbitrary: tr)
  case Nil
  then show ?case by simp
next
  case (Cons build rest)
  then show ?case
    by (simp add: case_prod_beta Let_def sends_printf CancelQueuedBuild_sends
          split: sum.split option.split)
qed

lemma removeOngoingLoop_sends:
  "sends a tr \<Longrightarrow> sends a (snd (removeOngoingLoop w cls builds tr))"
proof (induction builds arbitrary: tr)
  case Nil
  then show ?case by simp
next
  case (Cons build rest)
  then show ?case
    by (simp add: case_prod_beta Let_def sends_printf sends_fprintf CancelOngoingBuild_sends
          split: sum.split option.split)
qed

lemma removeQueuedOutdatedBuilds_sends:
  "sends a tr \<Longrightarrow> sends a (snd (removeQueuedOutdatedBuilds w cls tr))"
  by (simp add: removeQueuedOutdatedBuilds_def case_prod_beta QueuedBuilds_sends
        removeQueuedLoop_sends split: option.split sum.split)

lemma removeOngoingOutdatedBuilds_sends:
  "sends a tr \<Longrightarrow> sends a (snd (removeOngoingOutdatedBuilds w cls tr))"
  by (simp add: removeOngoingOutdatedBuilds_def case_prod_beta OngoingBuilds_sends
        removeOngoingLoop_sends split: option.split sum.split)

lemma removeOutdatedBuilds_sends:
  "sends a tr \<Longrightarrow> sends a (snd (removeOutdatedBuilds w cls tr))"
  by (simp add: removeOutdatedBuilds_def case_prod_beta removeQueuedOutdatedBuilds_sends
        removeOngoingOutdatedBuilds_sends)

lemma addPresubmitTestBuild_sends:
  "sends a tr \<Longrightarrow> sends a (snd (addPresubmitTestBuild w cls tests tr))"
  by (simp add: addPresubmitTestBuild_def Let_def AddBuildWithParameter_sends split: option.split)

lemma postMultiPartErrs_sends: "sends a tr \<Longrightarrow> sends a (postMultiPartErrs w errs tr)"
proof (induction errs arbitrary: tr)
  case Nil
  then show ?case by simp
next
  case (Cons e rest)
  then show ?case
    by (simp add: case_prod_beta Let_def sends_printf postMessage_sends
          split: error.split option.split)
qed

lemma submitLoop_sends: "sends a tr \<Longrightarrow> sends a (snd (submitLoop w groups tr))"
proof (induction groups arbitrary: tr)
  case Nil
  then show ?case by simp
next
  case (Cons l rest)
  then show ?case
    by (simp add: case_prod_beta submitCLs_sends split: option.split)
qed

lemma runQuery_sender_sends:
  "senderSends \<lparr>clLists = l, projects = ps, clsSent = n,
                removeOutdatedFn = removeOutdatedBuilds w,
                addPresubmitFn = addPresubmitTestBuild w,
                postMessageFn = postMessage w\<rparr>"
  by (simp add: senderSends_def removeOutdatedBuilds_sends addPresubmitTestBuild_sends
        postMessage_sends)

lemma runQuerySend_sends:
  "sends a tr \<Longrightarrow> sends a (snd (snd (runQuerySend w prevCLsMap curCLs tr)))"
  unfolding runQuerySend_def Let_def
  by (simp add: case_prod_beta LoadManifest_sends postMultiPartErrs_sends
        sendCLListsToPresubmitTest_sends runQuery_sender_sends getSubmittableCLs_sends
        submitLoop_sends sends_fprintf
        split: sum.split outcome.split option.split)

section \<open>Properties of the query command\<close>

text \<open>The shape of a run that starts with an empty trace: where it ends, and the events
  up to there.\<close>

lemma call_eq: "call answer ev tr = (answer tr, tr @ [ev (answer tr)])"
  by (simp add: call_def Let_def)

lemma runQuerySend_new:
  assumes "runQuerySend w prevCLsMap curCLs tr = (out, n, tr')"
  shows "\<exists>new. tr' = tr @ new \<and> list_all sendEvent new"
  using runQuerySend_sends [of tr tr w prevCLsMap curCLs] assms
  by (simp add: sends_def)

lemma runQueryBody_shape:
  assumes run: "runQueryBody w [] = (out, n, tr)"
  shows "(tr = [] \<and> n = 0 \<and> (\<exists>e. out = Return (Some e)))
    \<or> (tr = [E_LastCompletedBuildStatus (presubmitTestJobFlag w) (Inr ''FAILURE''),
             Printf Stdout ''%s is failing. Skipping this round.\<newline>''
               [ArgStr (presubmitTestJobFlag w)]] \<and> n = 0 \<and> out = Return None)
    \<or> (\<exists>pre. statusEvents w pre \<and>
         ((\<exists>e. tr = pre @ [E_ReadLog (logFilePathFlag w) (Inl e)] \<and> n = 0 \<and> out = Return (Some e))
        \<or> (\<exists>m e. gerritBaseUrl w = Inl e \<and>
                   tr = pre @ [E_ReadLog (logFilePathFlag w) (Inr m)] \<and> n = 0 \<and>
                   out = Return (Some e))
        \<or> (\<exists>m u e. gerritBaseUrl w = Inr u \<and>
                     tr = pre @ [E_ReadLog (logFilePathFlag w) (Inr m),
                                 E_Query u (queryStringFlag w) (Inl e)] \<and> n = 0 \<and>
                     out = Return (Some (Error (Sprintf w ''Query(%q) failed: %v''
                                     [ArgStr (queryStringFlag w), ArgErr e]))))
        \<or> (\<exists>m u cls e. gerritBaseUrl w = Inr u \<and>
                       tr = pre @ [E_ReadLog (logFilePathFlag w) (Inr m),
                                    E_Query u (queryStringFlag w) (Inr cls),
                                    E_WriteLog (logFilePathFlag w) cls (Some e)] \<and> n = 0 \<and>
                       out = Return (Some e))
        \<or> (\<exists>m u cls. gerritBaseUrl w = Inr u \<and> jenkinsHostFlag w = [] \<and>
                     tr = pre @ [E_ReadLog (logFilePathFlag w) (Inr m),
                                 E_Query u (queryStringFlag w) (Inr cls),
                                 E_WriteLog (logFilePathFlag w) cls None,
                                 Printf Stdout
                                   ''Not sending CLs to run presubmit tests due to empty Jenkins host.\<newline>''
                                   []] \<and> n = 0 \<and> out = Return None)
        \<or> (\<exists>m u cls. gerritBaseUrl w = Inr u \<and> jenkinsHostFlag w \<noteq> [] \<and> fmdom m = {||} \<and>
                     tr = pre @ [E_ReadLog (logFilePathFlag w) (Inr m),
                                 E_Query u (queryStringFlag w) (Inr cls),
                                 E_WriteLog (logFilePathFlag w) cls None,
                                 Printf Stdout
                                   ''Not sending CLs to run presubmit tests due to empty log file.\<newline>''
                                   []] \<and> n = 0 \<and> out = Return None)
        \<or> (\<exists>m u cls new. gerritBaseUrl w = Inr u \<and> jenkinsHostFlag w \<noteq> [] \<and>
                         fmdom m \<noteq> {||} \<and>
                         tr = pre @ [E_ReadLog (logFilePathFlag w) (Inr m),
                                     E_Query u (queryStringFlag w) (Inr cls),
                                     E_WriteLog (logFilePathFlag w) cls None] @ new \<and>
                         list_all sendEvent new \<and>
                         runQuerySend w m cls
                           (pre @ [E_ReadLog (logFilePathFlag w) (Inr m),
                                   E_Query u (queryStringFlag w) (Inr cls),
                                   E_WriteLog (logFilePathFlag w) cls None]) = (out, n, tr))))"
proof (cases "ext_Jenkins w (jenkinsHostFlag w)")
  case (Some err)
  with run show ?thesis by (auto simp: runQueryBody_def)
next
  case None
  define job where "job = presubmitTestJobFlag w"
  define st where "st = ext_LastCompletedBuildStatus w [] job"
  show ?thesis
  proof (cases "st = Inr ''FAILURE''")
    case True
    with run None show ?thesis
      by (auto simp: runQueryBody_def LastCompletedBuildStatus_def call_def printf_def st_def
            job_def Let_def)
  next
    case False
    define pre where "pre = (case st of
        Inl err \<Rightarrow> [E_LastCompletedBuildStatus job st, Fprintf Stderr ''%v\<newline>'' [ArgErr err]]
      | Inr r \<Rightarrow> [E_LastCompletedBuildStatus job st])"
    have pre: "statusEvents w pre"
      using False by (cases st) (auto simp: statusEvents_def pre_def job_def)
    define rd where "rd = ext_ReadLog w pre (logFilePathFlag w)"
    define tr3 where "tr3 = pre @ [E_ReadLog (logFilePathFlag w) rd]"
    have body: "(case rd of
           Inl err \<Rightarrow> (Return (Some err), 0, tr3)
         | Inr prevCLsMap \<Rightarrow>
             (case gerritBaseUrl w of
                Inl err \<Rightarrow> (Return (Some err), 0, tr3)
              | Inr gUrl \<Rightarrow>
                  (case Query w gUrl (queryStringFlag w) tr3 of
                     (Inl err, tr4) \<Rightarrow>
                       (Return (Some (Error (Sprintf w ''Query(%q) failed: %v''
                          [ArgStr (queryStringFlag w), ArgErr err]))), 0, tr4)
                   | (Inr curCLs, tr4) \<Rightarrow>
                       (case WriteLog w (logFilePathFlag w) curCLs tr4 of
                          (Some err, tr5) \<Rightarrow> (Return (Some err), 0, tr5)
                        | (None, tr5) \<Rightarrow>
                            if jenkinsHostFlag w = []
                            then (Return None, 0,
                                  printf Stdout
                                    ''Not sending CLs to run presubmit tests due to empty Jenkins host.\<newline>''
                                    [] tr5)
                            else if fmdom prevCLsMap = {||}
                            then (Return None, 0,
                                  printf Stdout
                                    ''Not sending CLs to run presubmit tests due to empty log file.\<newline>''
                                    [] tr5)
                            else runQuerySend w prevCLsMap curCLs tr5)))) = (out, n, tr)"
      using run None False
      by (cases st)
         (simp_all add: runQueryBody_def LastCompletedBuildStatus_def ReadLog_def call_def
            fprintf_def st_def job_def pre_def rd_def tr3_def Let_def
            cong: sum.case_cong option.case_cong prod.case_cong if_cong)
    show ?thesis
    proof (cases rd)
      case (Inl e)
      with body pre show ?thesis by (auto simp: tr3_def)
    next
      case (Inr m)
      note rd = this
      show ?thesis
      proof (cases "gerritBaseUrl w")
        case (Inl e)
        with body pre rd show ?thesis by (auto simp: tr3_def)
      next
        case (Inr u)
        note url = this
        define q where "q = ext_Query w tr3 u (queryStringFlag w)"
        define tr4 where "tr4 = tr3 @ [E_Query u (queryStringFlag w) q]"
        have qcall: "Query w u (queryStringFlag w) tr3 = (q, tr4)"
          by (simp add: Query_def call_eq q_def tr4_def)
        show ?thesis
        proof (cases q)
          case (Inl e)
          with body pre rd url qcall show ?thesis by (auto simp: tr3_def tr4_def)
        next
          case (Inr cls)
          note q = this
          define wr where "wr = ext_WriteLog w tr4 (logFilePathFlag w) cls"
          define tr5 where "tr5 = tr4 @ [E_WriteLog (logFilePathFlag w) cls wr]"
          have wcall: "WriteLog w (logFilePathFlag w) cls tr4 = (wr, tr5)"
            by (simp add: WriteLog_def call_eq wr_def tr5_def)
          show ?thesis
          proof (cases wr)
            case (Some e)
            with body pre rd url qcall q wcall show ?thesis
              by (auto simp: tr3_def tr4_def tr5_def)
          next
            case None
            note wr = this
            consider (host) "jenkinsHostFlag w = []"
              | (empty) "jenkinsHostFlag w \<noteq> []" "fmdom m = {||}"
              | (send) "jenkinsHostFlag w \<noteq> []" "fmdom m \<noteq> {||}" by blast
            then show ?thesis
            proof cases
              case host
              with body pre rd url qcall q wcall wr show ?thesis
                by (auto simp: tr3_def tr4_def tr5_def printf_def)
            next
              case empty
              with body pre rd url qcall q wcall wr show ?thesis
                by (auto simp: tr3_def tr4_def tr5_def printf_def)
            next
              case send
              with body rd url qcall q wcall wr
              have snd: "runQuerySend w m cls tr5 = (out, n, tr)" by simp
              from runQuerySend_new [OF this] obtain new
                where "tr = tr5 @ new" "list_all sendEvent new" by blast
              with pre send url snd show ?thesis
                by (auto simp: tr3_def tr4_def tr5_def rd q wr)
            qed
          qed
        qed
      qed
    qed
  qed
qed

lemma runQuery_body:
  assumes "runQuery w [] = (out, tr)"
  obtains n tr0 where "runQueryBody w [] = (out, n, tr0)"
    and "tr = tr0 @ [Printf Stdout ''%d sent.\<newline>'' [ArgInt n]]"
  using assms by (auto simp: runQuery_def printf_def split: prod.splits)

lemma runQuery_continues:
  assumes run: "runQuery w [] = (out, tr)"
      and pre: "statusEvents w pre" and mem: "set pre \<subseteq> set tr"
  shows "continuesNormally w pre out tr"
proof -
  from run obtain n tr0 where body: "runQueryBody w [] = (out, n, tr0)"
    and tr: "tr = tr0 @ [Printf Stdout ''%d sent.\<newline>'' [ArgInt n]]"
    by (rule runQuery_body)
  from runQueryBody_shape [OF body] pre mem show ?thesis
    unfolding tr statusEvents_def continuesNormally_def
    by (elim disjE exE conjE) (auto simp: list_all_iff)
qed

lemma sendEvent_filter: "list_all sendEvent new \<Longrightarrow> filter (\<lambda>e. \<not> sendEvent e) new = []"
  by (induction new) auto

text \<open>
  C10. In a run in which Jenkins reports the result of the last completed presubmit-test
  build as \<open>FAILURE\<close>, the command returns \<open>nil\<close> at once: the run consists of the status
  request, the line that says the job is failing and the deferred line that reports
  \<open>0\<close> CLs sent, so the log is not read, Gerrit is not queried, nothing is written and
  nothing is sent. When the status request itself fails, the error is printed to stderr
  and the run goes on as it does after a status other than \<open>FAILURE\<close>: it reads the log,
  queries Gerrit, writes the log and sends the new change lists, returning the first
  error of these steps (\<open>continuesNormally\<close>).
\<close>

theorem runQuery_last_build_status:
  assumes run: "runQuery w [] = (out, tr)"
  shows "(E_LastCompletedBuildStatus job (Inr ''FAILURE'') \<in> set tr \<longrightarrow>
            out = Return None \<and>
            tr = [E_LastCompletedBuildStatus (presubmitTestJobFlag w) (Inr ''FAILURE''),
                  Printf Stdout ''%s is failing. Skipping this round.\<newline>''
                    [ArgStr (presubmitTestJobFlag w)],
                  Printf Stdout ''%d sent.\<newline>'' [ArgInt 0]])
       \<and> (E_LastCompletedBuildStatus job (Inl err) \<in> set tr \<longrightarrow>
            continuesNormally w
              [E_LastCompletedBuildStatus (presubmitTestJobFlag w) (Inl err),
               Fprintf Stderr ''%v\<newline>'' [ArgErr err]] out tr)
       \<and> (E_LastCompletedBuildStatus job (Inr r) \<in> set tr \<and> r \<noteq> ''FAILURE'' \<longrightarrow>
            continuesNormally w
              [E_LastCompletedBuildStatus (presubmitTestJobFlag w) (Inr r)] out tr)"
proof -
  from run obtain n tr0 where body: "runQueryBody w [] = (out, n, tr0)"
    and tr: "tr = tr0 @ [Printf Stdout ''%d sent.\<newline>'' [ArgInt n]]"
    by (rule runQuery_body)
  have failure: "E_LastCompletedBuildStatus job (Inr ''FAILURE'') \<in> set tr \<longrightarrow>
            out = Return None \<and>
            tr = [E_LastCompletedBuildStatus (presubmitTestJobFlag w) (Inr ''FAILURE''),
                  Printf Stdout ''%s is failing. Skipping this round.\<newline>''
                    [ArgStr (presubmitTestJobFlag w)],
                  Printf Stdout ''%d sent.\<newline>'' [ArgInt 0]]"
    using runQueryBody_shape [OF body] unfolding tr statusEvents_def
    by (elim disjE exE conjE) (auto simp: list_all_iff)
  have status: "set pre \<subseteq> set tr \<and> statusEvents w pre"
    if "pre = [E_LastCompletedBuildStatus (presubmitTestJobFlag w) (Inl err),
               Fprintf Stderr ''%v\<newline>'' [ArgErr err]] \<and>
          E_LastCompletedBuildStatus job (Inl err) \<in> set tr
        \<or> pre = [E_LastCompletedBuildStatus (presubmitTestJobFlag w) (Inr r)] \<and>
          E_LastCompletedBuildStatus job (Inr r) \<in> set tr \<and> r \<noteq> ''FAILURE''" for pre
    using runQueryBody_shape [OF body] that unfolding tr statusEvents_def
    by (elim disjE exE conjE) (auto simp: list_all_iff)
  show ?thesis
    using failure status runQuery_continues [OF run] by blast
qed

theorem runQuery_last_build_status_witness:
  "runQuery lastBuildFailedWorld [] =
     (Return None,
      [E_LastCompletedBuildStatus ''presubmit-test'' (Inr ''FAILURE''),
       Printf Stdout ''%s is failing. Skipping this round.\<newline>'' [ArgStr ''presubmit-test''],
       Printf Stdout ''%d sent.\<newline>'' [ArgInt 0]])
   \<and> runQuery statusFailsWorld [] =
     (Return None,
      [E_LastCompletedBuildStatus ''presubmit-test'' (Inl (Error ''timeout'')),
      Fprintf Stderr ''%v\<newline>'' [ArgErr (Error ''timeout'')],
      E_ReadLog ''presubmit_log'' (Inr (fmap_of_list [(1000, 1)])),
      E_Query ''https://gerrit'' ''status:open'' (Inr [clGoogle]),
      E_WriteLog ''presubmit_log'' [clGoogle] None,
      E_LoadManifest None, E_LoadConfig None,
      E_QueuedBuilds ''presubmit-test'' (Inr []),
      E_OngoingBuilds ''presubmit-test'' (Inr []),
      E_AddBuildWithParameter ''presubmit-test''
        (fmap_of_list
          [(''REFS'', [''refs/changes/00/1000/2'']),
           (''PROJECTS'', [''release.go.core'']),
           (''TESTS'',
            [''vanadium-go-build vanadium-go-test-part0 vanadium-go-test-part1 vanadium-go-test-part2''])])
        None,
      Printf Stdout ''PASS: %s\<newline>'' [ArgStr ''Add http://go/vcl/1000/2''],
      E_getSubmittableCLs [clGoogle] [],
      Printf Stdout ''%d sent.\<newline>'' [ArgInt 1]])
   \<and> continuesNormally statusFailsWorld
       [E_LastCompletedBuildStatus ''presubmit-test'' (Inl (Error ''timeout'')),
        Fprintf Stderr ''%v\<newline>'' [ArgErr (Error ''timeout'')]]
       (Return None) (snd (runQuery statusFailsWorld []))
   \<and> continuesNormally exampleWorld
       [E_LastCompletedBuildStatus ''presubmit-test'' (Inr ''SUCCESS'')]
       (Return None) (snd (runQuery exampleWorld []))"
proof -
  have flags: "presubmitTestJobFlag lastBuildFailedWorld = ''presubmit-test''"
    "presubmitTestJobFlag statusFailsWorld = ''presubmit-test''"
    "presubmitTestJobFlag exampleWorld = ''presubmit-test''"
    by (simp_all add: exampleWorld_def lastBuildFailedWorld_def statusFailsWorld_def)
  have runF: "runQuery lastBuildFailedWorld [] =
     (Return None,
      [E_LastCompletedBuildStatus ''presubmit-test'' (Inr ''FAILURE''),
      Printf Stdout ''%s is failing. Skipping this round.\<newline>'' [ArgStr ''presubmit-test''],
      Printf Stdout ''%d sent.\<newline>'' [ArgInt 0]])"
    by code_simp
  have runT: "runQuery statusFailsWorld [] =
     (Return None,
      [E_LastCompletedBuildStatus ''presubmit-test'' (Inl (Error ''timeout'')),
      Fprintf Stderr ''%v\<newline>'' [ArgErr (Error ''timeout'')],
      E_ReadLog ''presubmit_log'' (Inr (fmap_of_list [(1000, 1)])),
      E_Query ''https://gerrit'' ''status:open'' (Inr [clGoogle]),
      E_WriteLog ''presubmit_log'' [clGoogle] None,
      E_LoadManifest None, E_LoadConfig None,
      E_QueuedBuilds ''presubmit-test'' (Inr []),
      E_OngoingBuilds ''presubmit-test'' (Inr []),
      E_AddBuildWithParameter ''presubmit-test''
        (fmap_of_list
          [(''REFS'', [''refs/changes/00/1000/2'']),
           (''PROJECTS'', [''release.go.core'']),
           (''TESTS'',
            [''vanadium-go-build vanadium-go-test-part0 vanadium-go-test-part1 vanadium-go-test-part2''])])
        None,
      Printf Stdout ''PASS: %s\<newline>'' [ArgStr ''Add http://go/vcl/1000/2''],
      E_getSubmittableCLs [clGoogle] [],
      Printf Stdout ''%d sent.\<newline>'' [ArgInt 1]])"
    by code_simp
  have runS: "runQuery exampleWorld [] =
     (Return None,
      [E_LastCompletedBuildStatus ''presubmit-test'' (Inr ''SUCCESS''),
      E_ReadLog ''presubmit_log'' (Inr (fmap_of_list [(1000, 1)])),
      E_Query ''https://gerrit'' ''status:open'' (Inr [clGoogle]),
      E_WriteLog ''presubmit_log'' [clGoogle] None,
      E_LoadManifest None, E_LoadConfig None,
      E_QueuedBuilds ''presubmit-test'' (Inr []),
      E_OngoingBuilds ''presubmit-test'' (Inr []),
      E_AddBuildWithParameter ''presubmit-test''
        (fmap_of_list
          [(''REFS'', [''refs/changes/00/1000/2'']),
           (''PROJECTS'', [''release.go.core'']),
           (''TESTS'',
            [''vanadium-go-build vanadium-go-test-part0 vanadium-go-test-part1 vanadium-go-test-part2''])])
        None,
      Printf Stdout ''PASS: %s\<newline>'' [ArgStr ''Add http://go/vcl/1000/2''],
      E_getSubmittableCLs [clGoogle] [],
      Printf Stdout ''%d sent.\<newline>'' [ArgInt 1]])"
    by code_simp
  have "continuesNormally statusFailsWorld
       [E_LastCompletedBuildStatus ''presubmit-test'' (Inl (Error ''timeout'')),
        Fprintf Stderr ''%v\<newline>'' [ArgErr (Error ''timeout'')]]
       (Return None) (snd (runQuery statusFailsWorld []))"
    using runQuery_last_build_status
      [OF runT, where job = "''presubmit-test''" and err = "Error ''timeout''"]
    unfolding flags runT by simp
  moreover have "continuesNormally exampleWorld
       [E_LastCompletedBuildStatus ''presubmit-test'' (Inr ''SUCCESS'')]
       (Return None) (snd (runQuery exampleWorld []))"
    using runQuery_last_build_status
      [OF runS, where job = "''presubmit-test''" and r = "''SUCCESS''"]
    unfolding flags runS by simp
  moreover have "fst (runQuery lastBuildFailedWorld []) = Return None"
    using runQuery_last_build_status [OF runF, where job = "''presubmit-test''"] runF
    unfolding flags by simp
  ultimately show ?thesis using runF runT by simp
qed

text \<open>
  C4 (as amended). In a run of the query command \<open>gerrit.WriteLog\<close> is called exactly when
  the query to Gerrit succeeds. Every call is made on the log file, with the changes the
  query returned, after the query and nowhere else in the run: the requests of the run
  for the build status, the log and Gerrit are the status request, the reading of the
  log, the query and this one call, in this order. The log is written, that is the call
  returns \<open>nil\<close>, exactly when the query succeeds and the call does not fail; when it
  fails, the run returns its error at once. When the reading of the log fails, or the
  query returns an error, the run returns an error and \<open>WriteLog\<close> is not called.
\<close>

theorem runQuery_write_log:
  assumes run: "runQuery w [] = (out, tr)"
  shows "((\<exists>path cls r. E_WriteLog path cls r \<in> set tr) \<longleftrightarrow>
            (\<exists>gUrl q cls. E_Query gUrl q (Inr cls) \<in> set tr))
       \<and> (\<forall>cls. (\<exists>r. E_WriteLog (logFilePathFlag w) cls r \<in> set tr) \<longleftrightarrow>
                 (\<exists>gUrl. E_Query gUrl (queryStringFlag w) (Inr cls) \<in> set tr))
       \<and> (\<forall>path cls r. E_WriteLog path cls r \<in> set tr \<longrightarrow>
            path = logFilePathFlag w \<and>
            (\<exists>st rd gUrl.
               filter (\<lambda>e. \<not> sendEvent e) tr =
                 [E_LastCompletedBuildStatus (presubmitTestJobFlag w) st,
                  E_ReadLog (logFilePathFlag w) rd,
                  E_Query gUrl (queryStringFlag w) (Inr cls),
                  E_WriteLog (logFilePathFlag w) cls r]))
       \<and> ((\<exists>cls. E_WriteLog (logFilePathFlag w) cls None \<in> set tr) \<longleftrightarrow>
            (\<exists>gUrl cls. E_Query gUrl (queryStringFlag w) (Inr cls) \<in> set tr) \<and>
            (\<forall>path cls e. E_WriteLog path cls (Some e) \<notin> set tr))
       \<and> (\<forall>path cls e. E_WriteLog path cls (Some e) \<in> set tr \<longrightarrow>
            out = Return (Some e) \<and>
            last (butlast tr) = E_WriteLog path cls (Some e) \<and>
            last tr = Printf Stdout ''%d sent.\<newline>'' [ArgInt 0])
       \<and> ((\<exists>path e. E_ReadLog path (Inl e) \<in> set tr) \<or>
          (\<exists>gUrl q e. E_Query gUrl q (Inl e) \<in> set tr) \<longrightarrow>
            (\<exists>e. out = Return (Some e)) \<and> (\<forall>path cls r. E_WriteLog path cls r \<notin> set tr))"
proof -
  from run obtain n tr0 where body: "runQueryBody w [] = (out, n, tr0)"
    and tr: "tr = tr0 @ [Printf Stdout ''%d sent.\<newline>'' [ArgInt n]]"
    by (rule runQuery_body)
  from runQueryBody_shape [OF body] show ?thesis
    unfolding tr statusEvents_def
    by (elim disjE exE conjE)
       (auto simp: list_all_iff sendEvent_filter butlast_append)
qed

theorem runQuery_write_log_witness:
  "runQuery exampleWorld [] =
     (Return None,
      [E_LastCompletedBuildStatus ''presubmit-test'' (Inr ''SUCCESS''),
      E_ReadLog ''presubmit_log'' (Inr (fmap_of_list [(1000, 1)])),
      E_Query ''https://gerrit'' ''status:open'' (Inr [clGoogle]),
      E_WriteLog ''presubmit_log'' [clGoogle] None,
      E_LoadManifest None, E_LoadConfig None,
      E_QueuedBuilds ''presubmit-test'' (Inr []),
      E_OngoingBuilds ''presubmit-test'' (Inr []),
      E_AddBuildWithParameter ''presubmit-test''
        (fmap_of_list
          [(''REFS'', [''refs/changes/00/1000/2'']),
           (''PROJECTS'', [''release.go.core'']),
           (''TESTS'',
            [''vanadium-go-build vanadium-go-test-part0 vanadium-go-test-part1 vanadium-go-test-part2''])])
        None,
      Printf Stdout ''PASS: %s\<newline>'' [ArgStr ''Add http://go/vcl/1000/2''],
      E_getSubmittableCLs [clGoogle] [],
      Printf Stdout ''%d sent.\<newline>'' [ArgInt 1]])
   \<and> filter (\<lambda>e. \<not> sendEvent e) (snd (runQuery exampleWorld [])) =
       [E_LastCompletedBuildStatus ''presubmit-test'' (Inr ''SUCCESS''),
        E_ReadLog ''presubmit_log'' (Inr (fmap_of_list [(1000, 1)])),
        E_Query ''https://gerrit'' ''status:open'' (Inr [clGoogle]),
        E_WriteLog ''presubmit_log'' [clGoogle] None]
   \<and> runQuery queryFailsWorld [] =
       (Return (Some (Error (''Query('' @ quoted ''status:open'' @ '') failed: connection refused''))),
        [E_LastCompletedBuildStatus ''presubmit-test'' (Inr ''SUCCESS''),
      E_ReadLog ''presubmit_log'' (Inr (fmap_of_list [(1000, 1)])),
      E_Query ''https://gerrit'' ''status:open'' (Inl (Error ''connection refused'')),
      Printf Stdout ''%d sent.\<newline>'' [ArgInt 0]])
   \<and> (\<forall>path cls r. E_WriteLog path cls r \<notin> set (snd (runQuery queryFailsWorld [])))
   \<and> fst (runQuery writeFailsWorld []) = Return (Some (Error ''disk full''))
   \<and> last (butlast (snd (runQuery writeFailsWorld []))) =
       E_WriteLog ''presubmit_log'' [clGoogle] (Some (Error ''disk full''))"
proof -
  have flags: "logFilePathFlag exampleWorld = ''presubmit_log''"
    "queryStringFlag exampleWorld = ''status:open''"
    "presubmitTestJobFlag exampleWorld = ''presubmit-test''"
    by (simp_all add: exampleWorld_def)
  have run: "runQuery exampleWorld [] =
     (Return None,
      [E_LastCompletedBuildStatus ''presubmit-test'' (Inr ''SUCCESS''),
      E_ReadLog ''presubmit_log'' (Inr (fmap_of_list [(1000, 1)])),
      E_Query ''https://gerrit'' ''status:open'' (Inr [clGoogle]),
      E_WriteLog ''presubmit_log'' [clGoogle] None,
      E_LoadManifest None, E_LoadConfig None,
      E_QueuedBuilds ''presubmit-test'' (Inr []),
      E_OngoingBuilds ''presubmit-test'' (Inr []),
      E_AddBuildWithParameter ''presubmit-test''
        (fmap_of_list
          [(''REFS'', [''refs/changes/00/1000/2'']),
           (''PROJECTS'', [''release.go.core'']),
           (''TESTS'',
            [''vanadium-go-build vanadium-go-test-part0 vanadium-go-test-part1 vanadium-go-test-part2''])])
        None,
      Printf Stdout ''PASS: %s\<newline>'' [ArgStr ''Add http://go/vcl/1000/2''],
      E_getSubmittableCLs [clGoogle] [],
      Printf Stdout ''%d sent.\<newline>'' [ArgInt 1]])"
    by code_simp
  have runQ: "runQuery queryFailsWorld [] =
       (Return (Some (Error (''Query('' @ quoted ''status:open'' @ '') failed: connection refused''))),
        [E_LastCompletedBuildStatus ''presubmit-test'' (Inr ''SUCCESS''),
      E_ReadLog ''presubmit_log'' (Inr (fmap_of_list [(1000, 1)])),
      E_Query ''https://gerrit'' ''status:open'' (Inl (Error ''connection refused'')),
      Printf Stdout ''%d sent.\<newline>'' [ArgInt 0]])"
    by code_simp
  have runW: "runQuery writeFailsWorld [] =
       (Return (Some (Error ''disk full'')),
        [E_LastCompletedBuildStatus ''presubmit-test'' (Inr ''SUCCESS''),
      E_ReadLog ''presubmit_log'' (Inr (fmap_of_list [(1000, 1)])),
      E_Query ''https://gerrit'' ''status:open'' (Inr [clGoogle]),
      E_WriteLog ''presubmit_log'' [clGoogle] (Some (Error ''disk full'')),
      Printf Stdout ''%d sent.\<newline>'' [ArgInt 0]])"
    by code_simp
  have ok: "filter (\<lambda>e. \<not> sendEvent e) (snd (runQuery exampleWorld [])) =
       [E_LastCompletedBuildStatus ''presubmit-test'' (Inr ''SUCCESS''),
        E_ReadLog ''presubmit_log'' (Inr (fmap_of_list [(1000, 1)])),
        E_Query ''https://gerrit'' ''status:open'' (Inr [clGoogle]),
        E_WriteLog ''presubmit_log'' [clGoogle] None]"
  proof -
    have "E_WriteLog ''presubmit_log'' [clGoogle] None \<in> set (snd (runQuery exampleWorld []))"
      unfolding run by simp
    with runQuery_write_log [OF run] show ?thesis
      unfolding run by simp
  qed
  have nowrite: "\<forall>path cls r. E_WriteLog path cls r \<notin> set (snd (runQuery queryFailsWorld []))"
  proof -
    have "\<exists>gUrl q e. E_Query gUrl q (Inl e) \<in> set (snd (runQuery queryFailsWorld []))"
      unfolding runQ by (intro exI [of _ "''https://gerrit''"] exI [of _ "''status:open''"]
          exI [of _ "Error ''connection refused''"]) simp
    with runQuery_write_log [OF runQ] show ?thesis
      unfolding runQ by simp
  qed
  have failed: "fst (runQuery writeFailsWorld []) = Return (Some (Error ''disk full''))
      \<and> last (butlast (snd (runQuery writeFailsWorld []))) =
          E_WriteLog ''presubmit_log'' [clGoogle] (Some (Error ''disk full''))"
  proof -
    have "E_WriteLog ''presubmit_log'' [clGoogle] (Some (Error ''disk full''))
            \<in> set (snd (runQuery writeFailsWorld []))"
      unfolding runW by simp
    with runQuery_write_log [OF runW] show ?thesis
      unfolding runW by simp
  qed
  from run ok runQ nowrite failed show ?thesis by blast
qed

text \<open>
  C4 as stated fails: when the query succeeds and the log file cannot be written, the
  query has succeeded and the log is not written; the run returns the error of
  \<open>WriteLog\<close>.
\<close>

theorem runQuery_write_failure_counterexample:
  "runQuery writeFailsWorld [] =
     (Return (Some (Error ''disk full'')),
      [E_LastCompletedBuildStatus ''presubmit-test'' (Inr ''SUCCESS''),
      E_ReadLog ''presubmit_log'' (Inr (fmap_of_list [(1000, 1)])),
      E_Query ''https://gerrit'' ''status:open'' (Inr [clGoogle]),
      E_WriteLog ''presubmit_log'' [clGoogle] (Some (Error ''disk full'')),
      Printf Stdout ''%d sent.\<newline>'' [ArgInt 0]])"
  by code_simp

text \<open>
  C3. In a run of the query command in which the map read from the log file is empty,
  no change list is sent to the presubmit test: the run reports \<open>0\<close> CLs sent (the last
  line it prints), adds no build and cancels none, queued or ongoing, however many open
  changes the query returns.
\<close>

theorem runQuery_empty_log_sends_nothing:
  assumes run: "runQuery w [] = (out, tr)"
      and log: "E_ReadLog path (Inr prevCLsMap) \<in> set tr"
      and empty: "fmdom prevCLsMap = {||}"
  shows "last tr = Printf Stdout ''%d sent.\<newline>'' [ArgInt 0]
       \<and> (\<forall>job params r. E_AddBuildWithParameter job params r \<notin> set tr)
       \<and> (\<forall>buildId r. E_CancelQueuedBuild buildId r \<notin> set tr)
       \<and> (\<forall>job number r. E_CancelOngoingBuild job number r \<notin> set tr)"
proof -
  obtain n tr0 where body: "runQueryBody w [] = (out, n, tr0)"
    and tr: "tr = tr0 @ [Printf Stdout ''%d sent.\<newline>'' [ArgInt n]]"
    using run by (auto simp: runQuery_def printf_def split: prod.splits)
  from runQueryBody_shape [OF body] log empty show ?thesis
    unfolding tr statusEvents_def
    by (elim disjE exE conjE) (auto simp: list_all_iff)
qed

theorem runQuery_empty_log_sends_nothing_witness:
  "runQuery (exampleWorld\<lparr>ext_ReadLog := (\<lambda>tr path. Inr fmempty)\<rparr>) [] =
     (Return None,
      [E_LastCompletedBuildStatus ''presubmit-test'' (Inr ''SUCCESS''),
       E_ReadLog ''presubmit_log'' (Inr fmempty),
       E_Query ''https://gerrit'' ''status:open'' (Inr [clGoogle]),
       E_WriteLog ''presubmit_log'' [clGoogle] None,
       Printf Stdout ''Not sending CLs to run presubmit tests due to empty log file.\<newline>'' [],
       Printf Stdout ''%d sent.\<newline>'' [ArgInt 0]])
   \<and> last (snd (runQuery (exampleWorld\<lparr>ext_ReadLog := (\<lambda>tr path. Inr fmempty)\<rparr>) [])) =
       Printf Stdout ''%d sent.\<newline>'' [ArgInt 0]
   \<and> (\<forall>job params r. E_AddBuildWithParameter job params r \<notin>
         set (snd (runQuery (exampleWorld\<lparr>ext_ReadLog := (\<lambda>tr path. Inr fmempty)\<rparr>) [])))"
proof -
  let ?w = "exampleWorld\<lparr>ext_ReadLog := (\<lambda>tr path. Inr fmempty)\<rparr>"
  let ?tr = "[E_LastCompletedBuildStatus ''presubmit-test'' (Inr ''SUCCESS''),
       E_ReadLog ''presubmit_log'' (Inr fmempty),
       E_Query ''https://gerrit'' ''status:open'' (Inr [clGoogle]),
       E_WriteLog ''presubmit_log'' [clGoogle] None,
       Printf Stdout ''Not sending CLs to run presubmit tests due to empty log file.\<newline>'' [],
       Printf Stdout ''%d sent.\<newline>'' [ArgInt 0]]"
  have run: "runQuery ?w [] = (Return None, ?tr)"
    by code_simp
  have log: "E_ReadLog ''presubmit_log'' (Inr fmempty) \<in> set ?tr"
    by simp
  have empty: "fmdom (fmempty :: clNumberToPatchsetMap) = {||}"
    by simp
  from runQuery_empty_log_sends_nothing [OF run log empty] run show ?thesis
    by simp
qed

section \<open>Properties of the sending of change lists\<close>









text \<open>
  C6 fails on the code. \<open>processCLList\<close> assigns \<open>hasNonGoogleOwner\<close> anew for every change
  of the group, so the flag tells whether the last change has an untrusted owner. For the
  group of a change of \<open>mallory@example.com\<close> followed by a change of
  \<open>alice@google.com\<close> the flag is \<open>false\<close>, and the group is sent to the presubmit test:
  a build is added with both refs, two CLs are counted as sent, and no message is posted.
\<close>

theorem processCLList_owner_check_last_member_only:
  "checkEmailAddress (OwnerEmail clExternal) = False
   \<and> fst (processCLList exampleWorld (exampleSender exampleWorld [[clExternal, clGoogle]])
           [clExternal, clGoogle] []) =
       Some \<lparr>clMap = fmap_of_list [(1001, 1), (1000, 2)],
              clString = ''http://go/vcl/1001/1, http://go/vcl/1000/2'',
              skipPresubmitTest = False, hasNonGoogleOwner = False,
              projects_result = [''release.go.core'', ''release.go.core''],
              refs = [''refs/changes/01/1001/1'', ''refs/changes/00/1000/2''],
              filteredCLList = [clExternal, clGoogle]\<rparr>
   \<and> fst (sendCLListsToPresubmitTest exampleWorld
           (exampleSender exampleWorld [[clExternal, clGoogle]]) []) = Return None
   \<and> clsSent (fst (snd (sendCLListsToPresubmitTest exampleWorld
           (exampleSender exampleWorld [[clExternal, clGoogle]]) []))) = 2
   \<and> snd (snd (sendCLListsToPresubmitTest exampleWorld
           (exampleSender exampleWorld [[clExternal, clGoogle]]) [])) =
       [E_LoadConfig None,
        E_QueuedBuilds ''presubmit-test'' (Inr []),
        E_OngoingBuilds ''presubmit-test'' (Inr []),
        E_AddBuildWithParameter ''presubmit-test''
          (fmap_of_list
            [(''REFS'', [''refs/changes/01/1001/1:refs/changes/00/1000/2'']),
             (''PROJECTS'', [''release.go.core:release.go.core'']),
             (''TESTS'',
              [''vanadium-go-build vanadium-go-test-part0 vanadium-go-test-part1 vanadium-go-test-part2''])])
          None,
        Printf Stdout ''PASS: %s\<newline>''
          [ArgStr ''Add http://go/vcl/1001/1, http://go/vcl/1000/2'']]"
  by code_simp

lemma appendTests_concat:
  "appendTests config ts acc =
     acc @ concat (map (\<lambda>test. case TestParts config test of
                                  Some parts \<Rightarrow> map (\<lambda>i. test @ ''-part'' @ decimal i) [0 ..< length parts + 1]
                                | None \<Rightarrow> [test]) ts)"
  by (induction ts arbitrary: acc) (auto simp: testNameWithPartSuffix_def split: option.splits)

text \<open>
  C7. When the configuration loads, \<open>getTestsToRun\<close> returns a sorted list that holds,
  for every test that \<open>ProjectTests\<close> gives for the projects, either the test itself (a
  test without parts) or, for a test with a part list of length \<open>n\<close>, the \<open>n + 1\<close> names
  \<open><test>-part<i>\<close> for \<open>i\<close> from \<open>0\<close> to \<open>n\<close> inclusive; and nothing else.
\<close>

theorem getTestsToRun_parts_sorted:
  assumes "ext_LoadConfig w tr = Inr config"
  shows "\<exists>tests. fst (getTestsToRun w ps tr) = Inr tests \<and> sorted tests \<and>
           mset tests =
             mset (concat (map (\<lambda>test. case TestParts config test of
                      Some parts \<Rightarrow> map (\<lambda>i. test @ ''-part'' @ decimal i) [0 ..< length parts + 1]
                    | None \<Rightarrow> [test]) (ProjectTests config ps)))"
  using assms
  by (simp add: getTestsToRun_def LoadConfig_def call_def Let_def appendTests_concat)

theorem getTestsToRun_parts_sorted_witness:
  "ext_LoadConfig exampleWorld [] = Inr exampleConfig
   \<and> (\<exists>tests. fst (getTestsToRun exampleWorld [''release.go.core''] []) = Inr tests \<and>
         sorted tests \<and>
         mset tests = mset [''vanadium-go-test-part0'', ''vanadium-go-test-part1'',
                            ''vanadium-go-test-part2'', ''vanadium-go-build''])"
proof -
  have h: "ext_LoadConfig exampleWorld [] = Inr exampleConfig"
    by (simp add: exampleWorld_def)
  have c: "concat (map (\<lambda>test. case TestParts exampleConfig test of
                      Some parts \<Rightarrow> map (\<lambda>i. test @ ''-part'' @ decimal i) [0 ..< length parts + 1]
                    | None \<Rightarrow> [test]) (ProjectTests exampleConfig [''release.go.core''])) =
           [''vanadium-go-test-part0'', ''vanadium-go-test-part1'',
            ''vanadium-go-test-part2'', ''vanadium-go-build'']"
    by code_simp
  from getTestsToRun_parts_sorted [OF h, of "[''release.go.core'']"] h show ?thesis
    unfolding c by simp
qed

lemma processCLListLoop_nil:
  assumes "cl \<in> set curCLList"
      and "projects s = None \<or> (\<exists>ps. projects s = Some ps \<and> Find ps (Project cl) \<noteq> [])"
      and "ext_ParseRefString w (Reference cl) = Inl err"
  shows "fst (processCLListLoop w s curCLList v tr) = None"
  using assms
proof (induction curCLList arbitrary: v tr)
  case Nil
  then show ?case by simp
next
  case (Cons c rest)
  show ?case
  proof (cases "c = cl")
    case True
    with Cons.prems show ?thesis
      by (auto simp: isKnownProject_def Let_def split: option.splits)
  next
    case False
    with Cons.prems have "cl \<in> set rest" by simp
    with Cons.IH Cons.prems have ih: "fst (processCLListLoop w s rest v' tr') = None" for v' tr'
      by blast
    show ?thesis
      by (simp add: case_prod_beta Let_def ih split: option.split sum.split bool.split)
  qed
qed

text \<open>
  C8. For a group with a change that passes the known-project filter (no project list,
  or a project of that name) and whose reference does not parse, \<open>processCLList\<close> returns
  \<open>nil\<close>; \<open>sendCLListsToPresubmitTest\<close> dereferences the result without a check, so on a
  list that starts with such a group it panics instead of returning.
\<close>

theorem processCLList_nil_dereferenced:
  assumes "cl \<in> set curCLList"
      and "projects s = None \<or> (\<exists>ps. projects s = Some ps \<and> Find ps (Project cl) \<noteq> [])"
      and "ext_ParseRefString w (Reference cl) = Inl err"
  shows "fst (processCLList w s curCLList tr) = None
       \<and> fst (sendCLListsToPresubmitTest w (s\<lparr>clLists := curCLList # rest\<rparr>) tr) = Panic"
proof -
  have nil: "fst (processCLList w s' curCLList tr) = None" if "projects s' = projects s" for s'
    using processCLListLoop_nil [of cl curCLList s' w err] assms that
    by (simp add: processCLList_def case_prod_beta split: option.split)
  have "fst (processCLList w (s\<lparr>clLists := curCLList # rest\<rparr>) curCLList tr) = None"
    by (rule nil) simp
  then have "fst (sendCLList w (s\<lparr>clLists := curCLList # rest\<rparr>) curCLList (clsSent s) tr) = Some Panic"
    by (simp add: sendCLList_def case_prod_beta split: option.split)
  then have "fst (sendCLListsToPresubmitTest w (s\<lparr>clLists := curCLList # rest\<rparr>) tr) = Panic"
    by (simp add: sendCLListsToPresubmitTest_def case_prod_beta split: option.split)
  with nil [of s] show ?thesis by simp
qed

theorem processCLList_nil_dereferenced_witness:
  "clBadRef \<in> set [clGoogle, clBadRef]
   \<and> (projects (exampleSender exampleWorld []) = None \<or>
      (\<exists>ps. projects (exampleSender exampleWorld []) = Some ps \<and>
            Find ps (Project clBadRef) \<noteq> []))
   \<and> ext_ParseRefString exampleWorld (Reference clBadRef) =
       Inl (Error ''unexpected number of parts'')
   \<and> fst (processCLList exampleWorld (exampleSender exampleWorld []) [clGoogle, clBadRef] []) = None
   \<and> fst (sendCLListsToPresubmitTest exampleWorld
           ((exampleSender exampleWorld [])\<lparr>clLists := [clGoogle, clBadRef] # [[clGoogle]]\<rparr>) []) =
       Panic"
proof -
  have h1: "clBadRef \<in> set [clGoogle, clBadRef]"
    by simp
  have h2: "projects (exampleSender exampleWorld []) = None \<or>
      (\<exists>ps. projects (exampleSender exampleWorld []) = Some ps \<and>
            Find ps (Project clBadRef) \<noteq> [])"
    by (simp add: exampleSender_def clBadRef_def Find_def)
  have h3: "ext_ParseRefString exampleWorld (Reference clBadRef) =
       Inl (Error ''unexpected number of parts'')"
    by code_simp
  from processCLList_nil_dereferenced [OF h1 h2 h3] h1 h2 h3 show ?thesis
    by blast
qed

section \<open>Properties of the removal of queued builds\<close>

lemma removeQueuedLoop_append:
  assumes "ParseRefs_QueuedBuild build = []"
  shows "removeQueuedLoop w cls None (before @ build # after) tr =
         removeQueuedLoop w cls None before tr"
  using assms
  by (induction before arbitrary: tr)
     (simp_all add: Let_def case_prod_beta split: sum.split option.split)

text \<open>
  C9. When a queued build in the list that Jenkins returns has no refs (\<open>ParseRefs\<close> gives
  the empty string), the loop of \<open>removeQueuedOutdatedBuilds\<close> returns \<open>nil\<close> as soon as it
  reaches that build, with no event added: the result and the trace of
  \<open>removeQueuedOutdatedBuilds\<close> are those of the loop over the builds before it alone, so
  neither that build nor any build after it is checked or cancelled.
\<close>

theorem removeQueuedOutdatedBuilds_empty_refs:
  assumes "ext_Jenkins w (jenkinsHostFlag w) = None"
      and "ext_QueuedBuilds w tr (presubmitTestJobFlag w) = Inr (before @ build # after)"
      and "ParseRefs_QueuedBuild build = []"
  shows "(\<forall>tr'. removeQueuedLoop w cls None (build # after) tr' = (None, tr'))
       \<and> removeQueuedOutdatedBuilds w cls tr =
           removeQueuedLoop w cls None before
             (tr @ [E_QueuedBuilds (presubmitTestJobFlag w) (Inr (before @ build # after))])"
  using assms
  by (simp add: removeQueuedOutdatedBuilds_def QueuedBuilds_def call_def Let_def
        removeQueuedLoop_append)

theorem removeQueuedOutdatedBuilds_empty_refs_witness:
  "removeQueuedOutdatedBuilds
     (exampleWorld\<lparr>ext_QueuedBuilds := (\<lambda>tr job. Inr
        ([\<lparr>Id_QueuedBuild = 7, ParseRefs_QueuedBuild = ''refs/changes/00/1000/1''\<rparr>] @
         \<lparr>Id_QueuedBuild = 8, ParseRefs_QueuedBuild = []\<rparr> #
         [\<lparr>Id_QueuedBuild = 9, ParseRefs_QueuedBuild = ''refs/changes/00/1000/1''\<rparr>]))\<rparr>)
     (fmap_of_list [(1000, 2)]) [] =
   (None,
    [E_QueuedBuilds ''presubmit-test''
       (Inr [\<lparr>Id_QueuedBuild = 7, ParseRefs_QueuedBuild = ''refs/changes/00/1000/1''\<rparr>,
             \<lparr>Id_QueuedBuild = 8, ParseRefs_QueuedBuild = []\<rparr>,
             \<lparr>Id_QueuedBuild = 9, ParseRefs_QueuedBuild = ''refs/changes/00/1000/1''\<rparr>]),
     E_CancelQueuedBuild ''7'' None,
     Printf Stdout ''Cancelled build %s as it is no longer current.\<newline>''
       [ArgStr ''refs/changes/00/1000/1'']])"
proof -
  let ?b7 = "\<lparr>Id_QueuedBuild = 7, ParseRefs_QueuedBuild = ''refs/changes/00/1000/1''\<rparr>"
  let ?b8 = "\<lparr>Id_QueuedBuild = 8, ParseRefs_QueuedBuild = []\<rparr>"
  let ?b9 = "\<lparr>Id_QueuedBuild = 9, ParseRefs_QueuedBuild = ''refs/changes/00/1000/1''\<rparr>"
  let ?w = "exampleWorld\<lparr>ext_QueuedBuilds := (\<lambda>tr job. Inr ([?b7] @ ?b8 # [?b9]))\<rparr>"
  have h1: "ext_Jenkins ?w (jenkinsHostFlag ?w) = None"
    by (simp add: exampleWorld_def)
  have h2: "ext_QueuedBuilds ?w [] (presubmitTestJobFlag ?w) = Inr ([?b7] @ ?b8 # [?b9])"
    by simp
  have h3: "ParseRefs_QueuedBuild ?b8 = []"
    by simp
  have job: "presubmitTestJobFlag ?w = ''presubmit-test''"
    by (simp add: exampleWorld_def)
  have before: "removeQueuedLoop ?w (fmap_of_list [(1000, 2)]) None [?b7]
       ([] @ [E_QueuedBuilds ''presubmit-test'' (Inr ([?b7] @ ?b8 # [?b9]))]) =
     (None,
      [E_QueuedBuilds ''presubmit-test'' (Inr [?b7, ?b8, ?b9]),
       E_CancelQueuedBuild ''7'' None,
       Printf Stdout ''Cancelled build %s as it is no longer current.\<newline>''
         [ArgStr ''refs/changes/00/1000/1'']])"
    by code_simp
  from removeQueuedOutdatedBuilds_empty_refs [OF h1 h2 h3, of "fmap_of_list [(1000, 2)]"]
  show ?thesis unfolding job before by simp
qed

end
